theory Spec2Isabelle
  imports Main "HOL-Library.Word" "HOL-Library.Sublist"
begin

section \<open>The GCP provider of the feature store (feast/infra/gcp.py)\<close>

text \<open>
  A shallow embedding of the online write and read paths against Datastore, of the
  minibatch splitter, of the lookup identifier and of the point-in-time query template.
  Python names that start with an underscore lose it (\<open>_to_minibatches\<close> is
  \<open>to_minibatches\<close>), since an Isabelle name cannot start with one.
\<close>

subsection \<open>Splitting a write batch into minibatches\<close>

text \<open>
  \<^verbatim>\<open>
  def _to_minibatches(data, batch_size=50):
      iterable = iter(data)
      while True:
          batch = list(itertools.islice(iterable, batch_size))
          if len(batch) > 0:
              yield batch
          else:
              break
  \<close>
  The iterator is the list of the elements not yet consumed; the generator is the list of
  the batches it yields, in yield order. \<open>islice\<close> refuses a negative count, so the
  batch size is a natural number.
\<close>

function to_minibatches :: "'a list \<Rightarrow> nat \<Rightarrow> 'a list list" where
  "to_minibatches iterable batch_size =
     (let batch = take batch_size iterable in
      if length batch > 0 then batch # to_minibatches (drop batch_size iterable) batch_size
      else [])"
  by pat_completeness auto
termination
  by (relation "measure (\<lambda>(iterable, batch_size). length iterable)") auto

declare to_minibatches.simps [simp del]

subsection \<open>Timestamps\<close>

text \<open>
  A Python \<open>datetime\<close>: its calendar fields, as the number of microseconds they stand for
  on the wall clock, and its \<open>tzinfo\<close>, as the offset from UTC in microseconds, or
  \<open>None\<close> for a naive value.
\<close>

record datetime =
  wall :: int
  tzinfo :: "int option"

text \<open>\<open>pytz.utc\<close>: the zone of offset zero.\<close>

definition utc :: int where
  "utc = 0"

text \<open>
  \<^verbatim>\<open>
  def _make_tzaware(t: datetime):
      """ We assume tz-naive datetimes are UTC """
      if t.tzinfo is None:
          return t.replace(tzinfo=utc)
      else:
          return t
  \<close>
\<close>

definition make_tzaware :: "datetime \<Rightarrow> datetime" where
  "make_tzaware t = (if tzinfo t = None then t\<lparr>tzinfo := Some utc\<rparr> else t)"

text \<open>The exceptions of the program, as values.\<close>

datatype error =
    Conflict
  | TypeError
  | ValueError
  | AssertionError
  | DecodeError
  | RemoteError string

text \<open>
  Python's \<open>a > b\<close> on datetimes: two naive values compare their fields, two aware ones
  compare the instants they denote, and a naive value against an aware one raises
  \<open>TypeError\<close>. \<open>a == b\<close> never raises: a naive value is unequal to every aware one.
\<close>

definition dt_gt :: "datetime \<Rightarrow> datetime \<Rightarrow> error + bool" where
  "dt_gt a b =
     (case tzinfo a of
        None \<Rightarrow> (case tzinfo b of None \<Rightarrow> Inr (wall b < wall a) | Some ob \<Rightarrow> Inl TypeError)
      | Some oa \<Rightarrow>
          (case tzinfo b of None \<Rightarrow> Inl TypeError | Some ob \<Rightarrow> Inr (wall b - ob < wall a - oa)))"

definition dt_eq :: "datetime \<Rightarrow> datetime \<Rightarrow> bool" where
  "dt_eq a b =
     (case tzinfo a of
        None \<Rightarrow> (case tzinfo b of None \<Rightarrow> wall a = wall b | Some ob \<Rightarrow> False)
      | Some oa \<Rightarrow>
          (case tzinfo b of None \<Rightarrow> False | Some ob \<Rightarrow> wall a - oa = wall b - ob))"

subsection \<open>Rows of the online store\<close>

type_synonym bytes = "8 word list"

text \<open>
  A Datastore entity as the write path fills it: the fields \<open>key\<close>, \<open>values\<close>,
  \<open>event_ts\<close> and \<open>created_ts\<close>. The dictionary of serialized feature values keeps
  the order of \<open>features.items()\<close>.
\<close>

record entity =
  key :: bytes
  values_map :: "(string \<times> bytes) list"
  event_ts :: datetime
  created_ts :: "datetime option"

text \<open>
  \<open>client.key("Project", project, "Table", table.name, "Row", document_id)\<close>: a path of
  kind and name pairs. The store maps such paths to entities.
\<close>

type_synonym ds_key = "(string \<times> string) list"

type_synonym datastore = "ds_key \<rightharpoonup> entity"

definition client_key :: "string \<Rightarrow> string \<Rightarrow> string \<Rightarrow> ds_key" where
  "client_key project table_name document_id =
     [(''Project'', project), (''Table'', table_name), (''Row'', document_id)]"

text \<open>
  The libraries the module calls and that are not part of it, as parameters:
  \<open>serialize_entity_key\<close> of \<open>feast.infra.key_encoding_utils\<close>, the protobuf methods
  \<open>SerializeToString\<close> of an entity key and of a value, \<open>ParseFromString\<close> of a value
  (which raises on bytes that are no message), and \<open>mmh3.hash_bytes\<close>.
\<close>

record ('k, 'v) codecs =
  serialize_entity_key :: "'k \<Rightarrow> bytes"
  key_SerializeToString :: "'k \<Rightarrow> bytes"
  SerializeToString :: "'v \<Rightarrow> bytes"
  ParseFromString :: "bytes \<Rightarrow> error + 'v"
  hash_bytes :: "bytes \<Rightarrow> bytes"

subsection \<open>The lookup identifier\<close>

text \<open>\<open>bytes.hex()\<close>: two lower-case hexadecimal digits for each byte.\<close>

definition hex_digit :: "nat \<Rightarrow> char" where
  "hex_digit n = ''0123456789abcdef'' ! (n mod 16)"

definition hex :: "bytes \<Rightarrow> string" where
  "hex bs = concat (map (\<lambda>b. [hex_digit (unat b div 16), hex_digit (unat b mod 16)]) bs)"

text \<open>
  \<^verbatim>\<open>
  def compute_datastore_entity_id(entity_key: EntityKeyProto) -> str:
      return mmh3.hash_bytes(serialize_entity_key(entity_key)).hex()
  \<close>
\<close>

definition compute_datastore_entity_id :: "('k, 'v) codecs \<Rightarrow> 'k \<Rightarrow> string" where
  "compute_datastore_entity_id L entity_key =
     hex (hash_bytes L (serialize_entity_key L entity_key))"

subsection \<open>The transactional write of one minibatch\<close>

text \<open>
  The Datastore client is not part of the module. A transaction is modelled by the store as
  it was when the transaction began and the store with the puts made so far applied to it;
  committing makes the second one the store, and leaving the \<open>with\<close> block by an
  exception drops it. Whether a lookup inside a transaction sees the puts made earlier in
  the same transaction is a property of the client: it is the parameter
  \<open>own_writes_visible\<close>, and nothing below fixes it.
\<close>

record txn =
  snapshot :: datastore
  pending :: datastore

definition txn_begin :: "datastore \<Rightarrow> txn" where
  "txn_begin store = \<lparr>snapshot = store, pending = store\<rparr>"

definition txn_get :: "bool \<Rightarrow> txn \<Rightarrow> ds_key \<Rightarrow> entity option" where
  "txn_get own_writes_visible t k = (if own_writes_visible then pending t k else snapshot t k)"

definition txn_put :: "txn \<Rightarrow> ds_key \<Rightarrow> entity \<Rightarrow> txn" where
  "txn_put t k e = t\<lparr>pending := (pending t)(k \<mapsto> e)\<rparr>"

definition txn_commit :: "txn \<Rightarrow> datastore" where
  "txn_commit t = pending t"

text \<open>
  What the remote store answers during one attempt: an exception when the transaction
  begins, at the lookup of the i-th record of the minibatch, or at the commit; \<open>None\<close>
  where the call succeeds.
\<close>

record fate =
  on_begin :: "error option"
  on_get :: "nat \<Rightarrow> error option"
  on_commit :: "error option"

text \<open>
  The staleness test of the loop body, for a row that exists: \<open>Inr True\<close> where the body
  executes \<open>continue\<close>.
  \<^verbatim>\<open>
  if entity["event_ts"] > _make_tzaware(timestamp):
      continue
  elif (
      entity["event_ts"] == _make_tzaware(timestamp)
      and created_ts is not None
      and entity["created_ts"] is not None
      and entity["created_ts"] > _make_tzaware(created_ts)
  ):
      continue
  \<close>
\<close>

definition staleness_guard :: "entity \<Rightarrow> datetime \<Rightarrow> datetime option \<Rightarrow> error + bool" where
  "staleness_guard entity timestamp created =
     (case dt_gt (event_ts entity) (make_tzaware timestamp) of
        Inl e \<Rightarrow> Inl e
      | Inr True \<Rightarrow> Inr True
      | Inr False \<Rightarrow>
          (if dt_eq (event_ts entity) (make_tzaware timestamp) then
             (case created of
                None \<Rightarrow> Inr False
              | Some c \<Rightarrow>
                  (case created_ts entity of
                     None \<Rightarrow> Inr False
                   | Some ec \<Rightarrow> dt_gt ec (make_tzaware c)))
           else Inr False))"

text \<open>
  \<open>entity.update(dict(key=..., values=..., event_ts=..., created_ts=...))\<close>, on the row
  found or on a new \<open>datastore.Entity(key=key)\<close>.
\<close>

definition entity_update ::
  "('k, 'v) codecs \<Rightarrow> entity option \<Rightarrow> 'k \<Rightarrow> (string \<times> 'v) list \<Rightarrow> datetime \<Rightarrow> datetime option
     \<Rightarrow> entity" where
  "entity_update L existing entity_key features timestamp created =
     (let fields = \<lparr>key = key_SerializeToString L entity_key,
                     values_map = map (\<lambda>(k, v). (k, SerializeToString L v)) features,
                     event_ts = make_tzaware timestamp,
                     created_ts = (case created of Some c \<Rightarrow> Some (make_tzaware c) | None \<Rightarrow> None)\<rparr>
      in case existing of
           Some entity \<Rightarrow> entity\<lparr>key := key fields, values_map := values_map fields,
                                  event_ts := event_ts fields, created_ts := created_ts fields\<rparr>
         | None \<Rightarrow> fields)"

type_synonym ('k, 'v) write_record = "'k \<times> (string \<times> 'v) list \<times> datetime \<times> datetime option"

text \<open>
  One pass of the loop body up to \<open>client.put(entity)\<close>, for the i-th record of the
  minibatch: \<open>Inl\<close> an exception, \<open>Inr None\<close> a \<open>continue\<close>, \<open>Inr (Some t)\<close> the
  transaction after the put.
\<close>

definition write_row ::
  "('k, 'v) codecs \<Rightarrow> bool \<Rightarrow> string \<Rightarrow> string \<Rightarrow> fate \<Rightarrow> nat \<Rightarrow> ('k, 'v) write_record \<Rightarrow> txn
     \<Rightarrow> error + txn option" where
  "write_row L own_writes_visible project table_name f i r t =
     (case r of (entity_key, features, timestamp, created) \<Rightarrow>
        (let document_id = compute_datastore_entity_id L entity_key;
             k = client_key project table_name document_id
         in case on_get f i of
              Some e \<Rightarrow> Inl e
            | None \<Rightarrow>
                (case txn_get own_writes_visible t k of
                   Some entity \<Rightarrow>
                     (case staleness_guard entity timestamp created of
                        Inl e \<Rightarrow> Inl e
                      | Inr True \<Rightarrow> Inr None
                      | Inr False \<Rightarrow>
                          Inr (Some (txn_put t k
                            (entity_update L (Some entity) entity_key features timestamp created))))
                 | None \<Rightarrow>
                     Inr (Some (txn_put t k
                       (entity_update L None entity_key features timestamp created))))))"

text \<open>
  The \<open>for\<close> loop over the minibatch. After a put, \<open>row_count\<close> grows by one and
  \<open>progress(1)\<close> runs if a callback was given; the callback acts on a state of the
  caller (a progress bar). An exception leaves the loop with the callbacks made so far
  already made.
\<close>

fun write_rows ::
  "('k, 'v) codecs \<Rightarrow> bool \<Rightarrow> string \<Rightarrow> string \<Rightarrow> (int \<Rightarrow> 'p \<Rightarrow> 'p) option \<Rightarrow> fate \<Rightarrow> nat
     \<Rightarrow> ('k, 'v) write_record list \<Rightarrow> txn \<Rightarrow> nat \<Rightarrow> 'p \<Rightarrow> (error + txn \<times> nat) \<times> 'p" where
  "write_rows L own_writes_visible project table_name progress f i [] t row_count p =
     (Inr (t, row_count), p)"
| "write_rows L own_writes_visible project table_name progress f i (r # data) t row_count p =
     (case write_row L own_writes_visible project table_name f i r t of
        Inl e \<Rightarrow> (Inl e, p)
      | Inr None \<Rightarrow>
          write_rows L own_writes_visible project table_name progress f (Suc i) data t row_count p
      | Inr (Some t') \<Rightarrow>
          write_rows L own_writes_visible project table_name progress f (Suc i) data t'
            (row_count + 1) (case progress of Some callback \<Rightarrow> callback 1 p | None \<Rightarrow> p))"

text \<open>
  The body of the \<open>try\<close>: \<open>row_count = 0\<close>, then the loop inside
  \<open>with client.transaction()\<close>. The result is the committed store with the final
  \<open>row_count\<close>, or the exception that left the block (the store is then as before).
\<close>

definition write_attempt ::
  "('k, 'v) codecs \<Rightarrow> bool \<Rightarrow> string \<Rightarrow> string \<Rightarrow> ('k, 'v) write_record list
     \<Rightarrow> (int \<Rightarrow> 'p \<Rightarrow> 'p) option \<Rightarrow> fate \<Rightarrow> datastore \<Rightarrow> 'p \<Rightarrow> (error + datastore \<times> nat) \<times> 'p" where
  "write_attempt L own_writes_visible project table_name data progress f store p =
     (case on_begin f of
        Some e \<Rightarrow> (Inl e, p)
      | None \<Rightarrow>
          (case write_rows L own_writes_visible project table_name progress f 0 data
                  (txn_begin store) 0 p of
             (Inl e, p') \<Rightarrow> (Inl e, p')
           | (Inr (t, row_count), p') \<Rightarrow>
               (case on_commit f of
                  Some e \<Rightarrow> (Inl e, p')
                | None \<Rightarrow> (Inr (txn_commit t, row_count), p'))))"

definition num_retries_on_conflict :: nat where
  "num_retries_on_conflict = 3"

text \<open>
  \<^verbatim>\<open>
  for retry_number in range(num_retries_on_conflict):
      try:
          ...
          break  # make sure to break out of retry loop if all went well
      except Conflict:
          if retry_number == num_retries_on_conflict - 1:
              raise
  \<close>
  The loop runs over the list of the retry numbers still to come; the attempt of number
  \<open>n\<close> meets the fate \<open>fates n\<close>. The result is the exception raised, if any, the store
  and the state of the caller's callback.
\<close>

fun retry_loop ::
  "('k, 'v) codecs \<Rightarrow> bool \<Rightarrow> string \<Rightarrow> string \<Rightarrow> ('k, 'v) write_record list
     \<Rightarrow> (int \<Rightarrow> 'p \<Rightarrow> 'p) option \<Rightarrow> (nat \<Rightarrow> fate) \<Rightarrow> nat list \<Rightarrow> datastore \<Rightarrow> 'p
     \<Rightarrow> error option \<times> datastore \<times> 'p" where
  "retry_loop L own_writes_visible project table_name data progress fates [] store p =
     (None, store, p)"
| "retry_loop L own_writes_visible project table_name data progress fates (retry_number # rest)
     store p =
     (case write_attempt L own_writes_visible project table_name data progress
             (fates retry_number) store p of
        (Inr (store', row_count), p') \<Rightarrow> (None, store', p')
      | (Inl e, p') \<Rightarrow>
          (if e = Conflict then
             (if retry_number = num_retries_on_conflict - 1 then (Some e, store, p')
              else retry_loop L own_writes_visible project table_name data progress fates rest
                     store p')
           else (Some e, store, p')))"

definition write_minibatch ::
  "('k, 'v) codecs \<Rightarrow> bool \<Rightarrow> string \<Rightarrow> string \<Rightarrow> ('k, 'v) write_record list
     \<Rightarrow> (int \<Rightarrow> 'p \<Rightarrow> 'p) option \<Rightarrow> (nat \<Rightarrow> fate) \<Rightarrow> datastore \<Rightarrow> 'p
     \<Rightarrow> error option \<times> datastore \<times> 'p" where
  "write_minibatch L own_writes_visible project table_name data progress fates store p =
     retry_loop L own_writes_visible project table_name data progress fates
       [0 ..< num_retries_on_conflict] store p"

subsection \<open>Writing a batch\<close>

text \<open>
  \<open>pool.map(func, iterable)\<close> on a \<open>ThreadPool\<close> of ten workers cuts the list of
  tasks into chunks of \<open>ceil(len / (4 * 10))\<close> tasks, cut as \<open>_to_minibatches\<close> cuts; a
  worker runs the tasks of a chunk in order and stops at the first one that raises, the
  other chunks run all the same, and the caller gets an exception raised by a task. The
  threads are outside this model: it runs the chunks one after the other, in order, and
  reports the first exception met. A task has a number (its position in the list) and acts
  on a state.
\<close>

fun mapstar :: "(nat \<times> 'b \<Rightarrow> 's \<Rightarrow> error option \<times> 's) \<Rightarrow> (nat \<times> 'b) list \<Rightarrow> 's \<Rightarrow> error option \<times> 's" where
  "mapstar func [] s = (None, s)"
| "mapstar func (x # chunk) s =
     (case func x s of
        (Some e, s') \<Rightarrow> (Some e, s')
      | (None, s') \<Rightarrow> mapstar func chunk s')"

fun run_tasks ::
  "(nat \<times> 'b \<Rightarrow> 's \<Rightarrow> error option \<times> 's) \<Rightarrow> (nat \<times> 'b) list list \<Rightarrow> 's \<Rightarrow> error option \<times> 's" where
  "run_tasks func [] s = (None, s)"
| "run_tasks func (chunk # chunks) s =
     (case mapstar func chunk s of
        (r, s') \<Rightarrow>
          (case run_tasks func chunks s' of
             (r', s'') \<Rightarrow> (case r of Some e \<Rightarrow> Some e | None \<Rightarrow> r', s'')))"

definition pool_map ::
  "(nat \<times> 'b \<Rightarrow> 's \<Rightarrow> error option \<times> 's) \<Rightarrow> 'b list \<Rightarrow> 's \<Rightarrow> error option \<times> 's" where
  "pool_map func iterable s =
     (let processes = 10;
          chunksize = length iterable div (processes * 4)
                      + (if length iterable mod (processes * 4) = 0 then 0 else 1)
      in run_tasks func (to_minibatches (enumerate 0 iterable) chunksize) s)"

text \<open>
  \<^verbatim>\<open>
  def online_write_batch(self, project, table, data, progress) -> None:
      client = self._initialize_client()
      pool = ThreadPool(processes=10)
      pool.map(
          lambda b: _write_minibatch(client, project, table, b, progress),
          _to_minibatches(data),
      )
  \<close>
  The minibatch of number \<open>n\<close> meets the fates \<open>fates n\<close>.
\<close>

definition online_write_batch ::
  "('k, 'v) codecs \<Rightarrow> bool \<Rightarrow> string \<Rightarrow> string \<Rightarrow> ('k, 'v) write_record list
     \<Rightarrow> (int \<Rightarrow> 'p \<Rightarrow> 'p) option \<Rightarrow> (nat \<Rightarrow> nat \<Rightarrow> fate) \<Rightarrow> datastore \<Rightarrow> 'p
     \<Rightarrow> error option \<times> datastore \<times> 'p" where
  "online_write_batch L own_writes_visible project table_name data progress fates store p =
     pool_map
       (\<lambda>(n, b) (store, p).
          write_minibatch L own_writes_visible project table_name b progress (fates n) store p)
       (to_minibatches data 50) (store, p)"

subsection \<open>Reading rows\<close>

text \<open>
  The inner loop of \<open>online_read\<close>: every serialized value of the row is parsed into a
  new \<open>ValueProto\<close>.
\<close>

fun parse_values :: "('k, 'v) codecs \<Rightarrow> (string \<times> 'v) list \<Rightarrow> (string \<times> bytes) list
     \<Rightarrow> error + (string \<times> 'v) list" where
  "parse_values L res [] = Inr res"
| "parse_values L res ((feature_name, value_bin) # items) =
     (case ParseFromString L value_bin of
        Inl e \<Rightarrow> Inl e
      | Inr val \<Rightarrow> parse_values L (res @ [(feature_name, val)]) items)"

text \<open>
  \<^verbatim>\<open>
  result = []
  for entity_key in entity_keys:
      document_id = compute_datastore_entity_id(entity_key)
      key = client.key("Project", project, "Table", table.name, "Row", document_id)
      value = client.get(key)
      if value is not None:
          res = {}
          for feature_name, value_bin in value["values"].items():
              val = ValueProto()
              val.ParseFromString(value_bin)
              res[feature_name] = val
          result.append((value["event_ts"], res))
      else:
          result.append((None, None))
  return result
  \<close>
  \<open>faults i\<close> is the exception the store raises at the lookup of the i-th key, if any.
\<close>

type_synonym 'v read_result = "datetime option \<times> (string \<times> 'v) list option"

fun read_rows ::
  "('k, 'v) codecs \<Rightarrow> string \<Rightarrow> string \<Rightarrow> (nat \<Rightarrow> error option) \<Rightarrow> datastore \<Rightarrow> nat
     \<Rightarrow> 'v read_result list \<Rightarrow> 'k list \<Rightarrow> error + 'v read_result list" where
  "read_rows L project table_name faults store i result [] = Inr result"
| "read_rows L project table_name faults store i result (entity_key # entity_keys) =
     (let document_id = compute_datastore_entity_id L entity_key;
          k = client_key project table_name document_id
      in case faults i of
           Some e \<Rightarrow> Inl e
         | None \<Rightarrow>
             (case store k of
                Some val \<Rightarrow>
                  (case parse_values L [] (values_map val) of
                     Inl e \<Rightarrow> Inl e
                   | Inr res \<Rightarrow>
                       read_rows L project table_name faults store (Suc i)
                         (result @ [(Some (event_ts val), Some res)]) entity_keys)
              | None \<Rightarrow>
                  read_rows L project table_name faults store (Suc i)
                    (result @ [(None, None)]) entity_keys))"

definition online_read ::
  "('k, 'v) codecs \<Rightarrow> string \<Rightarrow> string \<Rightarrow> 'k list \<Rightarrow> (nat \<Rightarrow> error option) \<Rightarrow> datastore
     \<Rightarrow> error + 'v read_result list" where
  "online_read L project table_name entity_keys faults store =
     read_rows L project table_name faults store 0 [] entity_keys"

subsection \<open>Feature views and query contexts\<close>

text \<open>
  The data sources of \<open>feast.data_source\<close> are not part of the module. A
  \<open>BigQuerySource\<close> carries, in this order, its \<open>table_ref\<close>, its
  \<open>event_timestamp_column\<close>, its \<open>created_timestamp_column\<close>, its
  \<open>field_mapping\<close> and its \<open>query\<close>; the other kinds of source only need to be
  told apart from it.
\<close>

datatype DataSource =
    BigQuerySource string string string "(string \<times> string) list" string
  | FileSource string
  | KafkaSource string
  | KinesisSource string

text \<open>
  A feature view: its name, its entity names, its \<open>ttl\<close> (a \<open>timedelta\<close>, as a
  number of microseconds, or \<open>None\<close> when it is not one) and its input.
\<close>

record FeatureView =
  name :: string
  entities :: "string list"
  ttl :: "int option"
  input :: DataSource

text \<open>
  \<^verbatim>\<open>
  @dataclass(frozen=True)
  class FeatureViewQueryContext:
      name: str
      ttl: int
      entities: List[str]
      features: List[str]  # feature reference format
      table_ref: str
      event_timestamp_column: str
      created_timestamp_column: str
      field_mapping: Dict[str, str]
      query: str
      table_subquery: str
  \<close>
\<close>

record FeatureViewQueryContext =
  name :: string
  ttl :: int
  entities :: "string list"
  features :: "string list"
  table_ref :: string
  event_timestamp_column :: string
  created_timestamp_column :: string
  field_mapping :: "(string \<times> string) list"
  query :: string
  table_subquery :: string

text \<open>
  \<open>int(feature_view.ttl.total_seconds())\<close>: the whole seconds of the duration, rounded
  toward zero as \<open>int\<close> does.
\<close>

definition int_total_seconds :: "int \<Rightarrow> int" where
  "int_total_seconds microseconds =
     (if 0 \<le> microseconds then microseconds div 1000000
      else - ((- microseconds) div 1000000))"

text \<open>
  The loop of \<open>get_feature_view_query_context\<close> over the requested feature views with
  their features. \<open>get_table_query_string\<close> is the method of the source of that name.
  \<^verbatim>\<open>
  for feature_view, features in feature_views_to_feature_map.items():
      entity_names = [entity for entity in feature_view.entities]
      if isinstance(feature_view.ttl, timedelta):
          ttl_seconds = int(feature_view.ttl.total_seconds())
      else:
          ttl_seconds = 0
      assert isinstance(feature_view.input, BigQuerySource)
      context = FeatureViewQueryContext(...)
      query_context.append(context)
  return query_context
  \<close>
\<close>

fun query_context_loop ::
  "(DataSource \<Rightarrow> string) \<Rightarrow> FeatureViewQueryContext list \<Rightarrow> (FeatureView \<times> string list) list
     \<Rightarrow> error + FeatureViewQueryContext list" where
  "query_context_loop get_table_query_string query_context [] = Inr query_context"
| "query_context_loop get_table_query_string query_context ((feature_view, fs) # items) =
     (let entity_names = FeatureView.entities feature_view;
          ttl_seconds = (case FeatureView.ttl feature_view of
                           Some microseconds \<Rightarrow> int_total_seconds microseconds
                         | None \<Rightarrow> 0)
      in case input feature_view of
           BigQuerySource input_table_ref input_event_timestamp_column
               input_created_timestamp_column input_field_mapping input_query \<Rightarrow>
             query_context_loop get_table_query_string
               (query_context @
                  [\<lparr>name = FeatureView.name feature_view,
                    ttl = ttl_seconds,
                    entities = entity_names,
                    features = fs,
                    table_ref = input_table_ref,
                    event_timestamp_column = input_event_timestamp_column,
                    created_timestamp_column = input_created_timestamp_column,
                    field_mapping = input_field_mapping,
                    query = input_query,
                    table_subquery = get_table_query_string (input feature_view)\<rparr>])
               items
         | _ \<Rightarrow> Inl AssertionError)"

text \<open>
  \<open>_get_requested_feature_views_to_features_dict\<close> of \<open>feast.infra.provider\<close> is not
  part of the module: it is the parameter \<open>requested\<close>, which gives the feature views
  with their requested features, or raises.
\<close>

definition get_feature_view_query_context ::
  "(string list \<Rightarrow> FeatureView list \<Rightarrow> error + (FeatureView \<times> string list) list)
     \<Rightarrow> (DataSource \<Rightarrow> string) \<Rightarrow> string list \<Rightarrow> FeatureView list
     \<Rightarrow> error + FeatureViewQueryContext list" where
  "get_feature_view_query_context requested get_table_query_string feature_refs feature_views =
     (case requested feature_refs feature_views of
        Inl e \<Rightarrow> Inl e
      | Inr feature_views_to_feature_map \<Rightarrow>
          query_context_loop get_table_query_string [] feature_views_to_feature_map)"

subsection \<open>The point-in-time query\<close>

text \<open>
  The template \<open>SINGLE_FEATURE_VIEW_POINT_IN_TIME_JOIN\<close> as Jinja renders it with its
  default settings: the text between the tags as it stands, line ends included, an
  expression replaced by the string of its value, and the one newline that ends the
  template dropped. \<open>str\<close> of an integer, the filter \<open>join\<close>, the flag
  \<open>loop.last\<close> and the quote character:
\<close>

definition digit_char :: "nat \<Rightarrow> char" where
  "digit_char n = ''0123456789'' ! (n mod 10)"

function str_nat :: "nat \<Rightarrow> string" where
  "str_nat n = (if n < 10 then [digit_char n] else str_nat (n div 10) @ [digit_char (n mod 10)])"
  by pat_completeness auto
termination
  by (relation "measure id") auto

declare str_nat.simps [simp del]

definition str_int :: "int \<Rightarrow> string" where
  "str_int i = (if i < 0 then CHR ''-'' # str_nat (nat (- i)) else str_nat (nat i))"

fun join :: "string \<Rightarrow> string list \<Rightarrow> string" where
  "join d [] = []"
| "join d [x] = x"
| "join d (x # y # ys) = x @ d @ join d (y # ys)"

fun with_last :: "'a list \<Rightarrow> ('a \<times> bool) list" where
  "with_last [] = []"
| "with_last [x] = [(x, True)]"
| "with_last (x # y # ys) = (x, False) # with_last (y # ys)"

definition quote :: string where
  "quote = [CHR 0x27]"

text \<open>
  The two places where the template looks at the time to live. In the rows taken from the
  source:
  \<^verbatim>\<open>
  FROM {{ featureview.table_subquery }} WHERE {{ featureview.event_timestamp_column }} <= '{{ max_timestamp }}'
  {% if featureview.ttl == 0 %}{% else %}AND {{ featureview.event_timestamp_column }} >= Timestamp_sub(TIMESTAMP '{{ min_timestamp }}', interval {{ featureview.ttl }} second){% endif %}
  \<close>
\<close>

definition ttl_source_filter :: "FeatureViewQueryContext \<Rightarrow> string \<Rightarrow> string" where
  "ttl_source_filter fv min_timestamp =
     (if ttl fv = 0 then []
      else (''AND '' @ event_timestamp_column fv @ '' >= Timestamp_sub(TIMESTAMP '' @ quote
        @ min_timestamp @ quote @ '', interval '' @ str_int (ttl fv) @ '' second)''))"

definition source_rows :: "FeatureViewQueryContext \<Rightarrow> string \<Rightarrow> string \<Rightarrow> string" where
  "source_rows fv min_timestamp max_timestamp =
     ''FROM '' @ table_subquery fv @ '' WHERE '' @ event_timestamp_column fv @ '' <= ''
     @ quote @ max_timestamp @ quote @ ''\<newline>''
     @ ttl_source_filter fv min_timestamp @ ''\<newline>''"

text \<open>
  And in the column of each requested feature:
  \<^verbatim>\<open>
  IF(event_timestamp >= {{ featureview.name }}_feature_timestamp {% if featureview.ttl == 0 %}{% else %}AND Timestamp_sub(event_timestamp, interval {{ featureview.ttl }} second) < {{ featureview.name }}_feature_timestamp{% endif %}, {{ featureview.name }}__{{ feature }}, NULL) as {{ featureview.name }}__{{ feature }}{% if loop.last %}{% else %}, {% endif %}
  \<close>
\<close>

definition ttl_validity :: "FeatureViewQueryContext \<Rightarrow> string" where
  "ttl_validity fv =
     (if ttl fv = 0 then []
      else (''AND Timestamp_sub(event_timestamp, interval '' @ str_int (ttl fv) @ '' second) < ''
        @ name fv @ ''_feature_timestamp''))"

definition feature_column :: "FeatureViewQueryContext \<Rightarrow> string \<times> bool \<Rightarrow> string" where
  "feature_column fv = (\<lambda>(feature, last).
     ''\<newline>''
     @ ''  IF(event_timestamp >= '' @ name fv @ ''_feature_timestamp ''
     @ ttl_validity fv
     @ '', '' @ name fv @ ''__'' @ feature @ '', NULL) as '' @ name fv @ ''__'' @ feature
     @ (if last then [] else '', '') @ ''\<newline>'' @ ''  '')"

text \<open>The other bodies of loops over the features.\<close>

definition joined_feature :: "FeatureViewQueryContext \<Rightarrow> string \<times> bool \<Rightarrow> string" where
  "joined_feature fv = (\<lambda>(feature, last).
     ''\<newline>''
     @ ''  '' @ feature @ '' as '' @ name fv @ ''__'' @ feature
     @ (if last then [] else '', '') @ ''\<newline>'' @ ''  '')"

definition selected_feature :: "FeatureViewQueryContext \<Rightarrow> string \<times> bool \<Rightarrow> string" where
  "selected_feature fv = (\<lambda>(feature, last).
     ''\<newline>''
     @ ''    '' @ name fv @ ''__'' @ feature
     @ (if last then [] else '', '') @ ''\<newline>'' @ ''    '')"

text \<open>The text of the template around them, in the order of the template.\<close>

definition template_header :: "string \<Rightarrow> string" where
  "template_header left_table_query_string =
     ''\<newline>''
     @ ''WITH entity_dataframe AS (\<newline>''
     @ ''    SELECT ROW_NUMBER() OVER() AS row_number, edf.* FROM ''
     @ left_table_query_string @ '' as edf\<newline>''
     @ ''),\<newline>''"

definition union_features :: "FeatureViewQueryContext \<Rightarrow> string" where
  "union_features fv =
     ''\<newline>''
     @ ''/*\<newline>''
     @ '' This query template performs the point-in-time correctness join for a single feature set table\<newline>''
     @ '' to the provided entity table.\<newline>''
     @ '' 1. Concatenate the timestamp and entities from the feature set table with the entity dataset.\<newline>''
     @ '' Feature values are joined to this table later for improved efficiency.\<newline>''
     @ '' featureview_timestamp is equal to null in rows from the entity dataset.\<newline>''
     @ '' */\<newline>''
     @ name fv @ ''__union_features AS (\<newline>''
     @ ''SELECT\<newline>''
     @ ''  -- unique identifier for each row in the entity dataset.\<newline>''
     @ ''  row_number,\<newline>''
     @ ''  -- event_timestamp contains the timestamps to join onto\<newline>''
     @ ''  event_timestamp,\<newline>''
     @ ''  -- the feature_timestamp, i.e. the latest occurrence of the requested feature relative to the entity_dataset timestamp\<newline>''
     @ ''  NULL as '' @ name fv @ ''_feature_timestamp,\<newline>''
     @ ''  -- created timestamp of the feature at the corresponding feature_timestamp\<newline>''
     @ ''  NULL as created_timestamp,\<newline>''
     @ ''  -- select only entities belonging to this feature set\<newline>''
     @ ''  '' @ join '', '' (entities fv) @ '',\<newline>''
     @ ''  -- boolean for filtering the dataset later\<newline>''
     @ ''  true AS is_entity_table\<newline>''
     @ ''FROM entity_dataframe\<newline>''
     @ ''UNION ALL\<newline>''
     @ ''SELECT\<newline>''
     @ ''  NULL as row_number,\<newline>''
     @ ''  '' @ event_timestamp_column fv @ '' as event_timestamp,\<newline>''
     @ ''  '' @ event_timestamp_column fv @ '' as '' @ name fv
     @ ''_feature_timestamp,\<newline>''
     @ ''  '' @ created_timestamp_column fv @ '' as created_timestamp,\<newline>''
     @ ''  '' @ join '', '' (entities fv) @ '',\<newline>''
     @ ''  false AS is_entity_table\<newline>''"

definition joined_head :: "FeatureViewQueryContext \<Rightarrow> string" where
  "joined_head fv =
     ''),\<newline>''
     @ ''/*\<newline>''
     @ '' 2. Window the data in the unioned dataset, partitioning by entity and ordering by event_timestamp, as\<newline>''
     @ '' well as is_entity_table.\<newline>''
     @ '' Within each window, back-fill the feature_timestamp - as a result of this, the null feature_timestamps\<newline>''
     @ '' in the rows from the entity table should now contain the latest timestamps relative to the row''
     @ quote @ ''s\<newline>''
     @ '' event_timestamp.\<newline>''
     @ '' For rows where event_timestamp(provided datetime) - feature_timestamp > max age, set the\<newline>''
     @ '' feature_timestamp to null.\<newline>''
     @ '' */\<newline>''
     @ name fv @ ''__joined AS (\<newline>''
     @ ''SELECT\<newline>''
     @ ''  row_number,\<newline>''
     @ ''  event_timestamp,\<newline>''
     @ ''  '' @ join '', '' (entities fv) @ '',\<newline>''
     @ ''  ''"

definition joined_from :: "FeatureViewQueryContext \<Rightarrow> string" where
  "joined_from fv =
     ''\<newline>''
     @ ''FROM (\<newline>''
     @ ''SELECT\<newline>''
     @ ''  row_number,\<newline>''
     @ ''  event_timestamp,\<newline>''
     @ ''  '' @ join '', '' (entities fv) @ '',\<newline>''
     @ ''  FIRST_VALUE(created_timestamp IGNORE NULLS) over w AS created_timestamp,\<newline>''
     @ ''  FIRST_VALUE('' @ name fv @ ''_feature_timestamp IGNORE NULLS) over w AS ''
     @ name fv @ ''_feature_timestamp,\<newline>''
     @ ''  is_entity_table\<newline>''
     @ ''FROM '' @ name fv @ ''__union_features\<newline>''
     @ ''WINDOW w AS (PARTITION BY '' @ join '', '' (entities fv)
     @ '' ORDER BY event_timestamp DESC, is_entity_table DESC, created_timestamp DESC ROWS BETWEEN CURRENT ROW AND UNBOUNDED FOLLOWING)\<newline>''
     @ '')\<newline>''
     @ ''/*\<newline>''
     @ '' 3. Select only the rows from the entity table, and join the features from the original feature set table\<newline>''
     @ '' to the dataset using the entity values, feature_timestamp, and created_timestamps.\<newline>''
     @ '' */\<newline>''
     @ ''LEFT JOIN (\<newline>''
     @ ''SELECT\<newline>''
     @ ''  '' @ event_timestamp_column fv @ '' as '' @ name fv
     @ ''_feature_timestamp,\<newline>''
     @ ''  '' @ created_timestamp_column fv @ '' as created_timestamp,\<newline>''
     @ ''  '' @ join '', '' (entities fv) @ '',\<newline>''
     @ ''  ''"

definition deduped :: "FeatureViewQueryContext \<Rightarrow> string" where
  "deduped fv =
     '') USING ('' @ name fv @ ''_feature_timestamp, created_timestamp, ''
     @ join '', '' (entities fv) @ '')\<newline>''
     @ ''WHERE is_entity_table\<newline>''
     @ ''),\<newline>''
     @ ''/*\<newline>''
     @ '' 4. Finally, deduplicate the rows by selecting the first occurrence of each entity table row_number.\<newline>''
     @ '' */\<newline>''
     @ name fv @ ''__deduped AS (SELECT\<newline>''
     @ ''  k.*\<newline>''
     @ ''FROM (\<newline>''
     @ ''  SELECT ARRAY_AGG(row LIMIT 1)[OFFSET(0)] k\<newline>''
     @ ''  FROM '' @ name fv @ ''__joined row\<newline>''
     @ ''  GROUP BY row_number\<newline>''
     @ ''))''"

definition template_assembly :: string where
  "template_assembly =
     ''\<newline>''
     @ ''/*\<newline>''
     @ '' Joins the outputs of multiple time travel joins to a single table.\<newline>''
     @ '' */\<newline>''
     @ ''SELECT edf.event_timestamp as event_timestamp, * EXCEPT (row_number, event_timestamp) FROM entity_dataframe edf\<newline>''"

definition left_join_head :: string where
  "left_join_head =
     ''\<newline>''
     @ ''LEFT JOIN (\<newline>''
     @ ''    SELECT\<newline>''
     @ ''    row_number,\<newline>''
     @ ''    ''"

definition left_join_tail :: "FeatureViewQueryContext \<Rightarrow> string" where
  "left_join_tail fv =
     ''\<newline>''
     @ ''    FROM '' @ name fv @ ''__deduped\<newline>''
     @ '') USING (row_number)\<newline>''"

definition template_footer :: string where
  "template_footer =
     ''\<newline>''
     @ ''ORDER BY event_timestamp''"

text \<open>
  The body of the first loop over the feature views, and the body of the second one.
\<close>

definition featureview_block ::
  "string \<Rightarrow> string \<Rightarrow> FeatureViewQueryContext \<times> bool \<Rightarrow> string" where
  "featureview_block min_timestamp max_timestamp = (\<lambda>(fv, last).
     union_features fv
     @ source_rows fv min_timestamp max_timestamp
     @ joined_head fv
     @ concat (map (feature_column fv) (with_last (features fv)))
     @ joined_from fv
     @ concat (map (joined_feature fv) (with_last (features fv)))
     @ ''\<newline>''
     @ source_rows fv min_timestamp max_timestamp
     @ deduped fv
     @ (if last then [] else '', '') @ ''\<newline>'' @ ''\<newline>'')"

definition featureview_join :: "FeatureViewQueryContext \<Rightarrow> string" where
  "featureview_join fv =
     left_join_head
     @ concat (map (selected_feature fv) (with_last (features fv)))
     @ left_join_tail fv"

text \<open>
  \<^verbatim>\<open>
  def build_point_in_time_query(feature_view_query_contexts, min_timestamp, max_timestamp,
                                left_table_query_string):
      template = Environment(loader=BaseLoader()).from_string(
          source=SINGLE_FEATURE_VIEW_POINT_IN_TIME_JOIN)
      template_context = {
          "min_timestamp": min_timestamp,
          "max_timestamp": max_timestamp,
          "left_table_query_string": left_table_query_string,
          "featureviews": [asdict(context) for context in feature_view_query_contexts],
      }
      query = template.render(template_context)
      return query
  \<close>
  \<open>str_datetime\<close> is \<open>str\<close> on a datetime, by which the two timestamps are rendered.
\<close>

definition build_point_in_time_query ::
  "(datetime \<Rightarrow> string) \<Rightarrow> FeatureViewQueryContext list \<Rightarrow> datetime \<Rightarrow> datetime \<Rightarrow> string
     \<Rightarrow> string" where
  "build_point_in_time_query str_datetime feature_view_query_contexts min_timestamp max_timestamp
     left_table_query_string =
     template_header left_table_query_string
     @ concat (map (featureview_block (str_datetime min_timestamp) (str_datetime max_timestamp))
                (with_last feature_view_query_contexts))
     @ template_assembly
     @ concat (map featureview_join feature_view_query_contexts)
     @ template_footer"

subsection \<open>Historical retrieval\<close>

text \<open>
  The entity dataset handed to \<open>get_historical_features\<close>: a string (a BigQuery SQL
  query), a Pandas dataframe, or an object of any other type. The calls that reach
  BigQuery are recorded in the order in which they are made.
\<close>

datatype 'df entity_dataframe =
    SqlQuery string
  | DataFrame 'df
  | OtherObject

datatype 'df remote_call =
    CreateDataset string
  | LoadTableFromDataframe 'df string
  | GetTable string
  | UpdateTable string

text \<open>
  What the module reads from outside: the project of the BigQuery client, the clock
  (\<open>int(time.time())\<close> and the successive values of \<open>datetime.now()\<close>), \<open>str\<close> on
  datetimes, and the two functions of the repository that are not part of the module.
\<close>

record world =
  client_project :: string
  time_time :: int
  datetime_now :: "nat \<Rightarrow> datetime"
  str_datetime :: "datetime \<Rightarrow> string"
  get_table_query_string :: "DataSource \<Rightarrow> string"
  requested :: "string list \<Rightarrow> FeatureView list \<Rightarrow> error + (FeatureView \<times> string list) list"

text \<open>
  \<^verbatim>\<open>
  def _upload_entity_df_into_bigquery(project, entity_df) -> str:
      client = bigquery.Client()
      dataset = bigquery.Dataset(f"{client.project}.feast_{project}")
      dataset.location = "US"
      client.create_dataset(dataset, exists_ok=True)
      entity_df.reset_index(drop=True, inplace=True)
      job_config = bigquery.LoadJobConfig()
      table_id = f"{client.project}.feast_{project}.entity_df_{int(time.time())}"
      job = client.load_table_from_dataframe(entity_df, table_id, job_config=job_config,)
      job.result()
      table = client.get_table(table=table_id)
      table.expires = datetime.utcnow() + timedelta(minutes=30)
      client.update_table(table, ["expires"])
      return table_id
  \<close>
  The result is the table reference with the calls made, all of them taken to succeed.
\<close>

definition upload_entity_df_into_bigquery ::
  "world \<Rightarrow> string \<Rightarrow> 'df \<Rightarrow> string \<times> 'df remote_call list" where
  "upload_entity_df_into_bigquery W project entity_df =
     (let dataset = client_project W @ ''.feast_'' @ project;
          table_id = client_project W @ ''.feast_'' @ project @ ''.entity_df_''
                     @ str_int (time_time W)
      in (table_id,
          [CreateDataset dataset, LoadTableFromDataframe entity_df table_id,
           GetTable table_id, UpdateTable table_id]))"

text \<open>\<open>t + timedelta(days=n)\<close>, for \<open>n\<close> of either sign.\<close>

definition plus_days :: "datetime \<Rightarrow> int \<Rightarrow> datetime" where
  "plus_days t n = t\<lparr>wall := wall t + n * 86400000000\<rparr>"

text \<open>
  \<^verbatim>\<open>
  if type(entity_df) is str:
      entity_df_sql_table = f"({entity_df})"
  elif isinstance(entity_df, pandas.DataFrame):
      table_id = _upload_entity_df_into_bigquery(config.project, entity_df)
      entity_df_sql_table = f"`{table_id}`"
  else:
      raise ValueError(...)
  query_context = get_feature_view_query_context(feature_refs, feature_views)
  query = build_point_in_time_query(
      query_context,
      min_timestamp=datetime.now() - timedelta(days=365),
      max_timestamp=datetime.now() + timedelta(days=1),
      left_table_query_string=entity_df_sql_table,
  )
  job = BigQueryRetrievalJob(query=query)
  return job
  \<close>
  The result is the query of the job, or the exception raised, with the calls that have
  reached BigQuery by then. The job runs nothing before \<open>to_df\<close> is called.
\<close>

definition get_historical_features ::
  "world \<Rightarrow> string \<Rightarrow> FeatureView list \<Rightarrow> string list \<Rightarrow> 'df entity_dataframe
     \<Rightarrow> (error + string) \<times> 'df remote_call list" where
  "get_historical_features W project feature_views feature_refs entity_df =
     (case (case entity_df of
              SqlQuery q \<Rightarrow> Inr (''('' @ q @ '')'', [])
            | DataFrame df \<Rightarrow>
                (case upload_entity_df_into_bigquery W project df of
                   (table_id, calls) \<Rightarrow> Inr (''`'' @ table_id @ ''`'', calls))
            | OtherObject \<Rightarrow> Inl ValueError) of
        Inl e \<Rightarrow> (Inl e, [])
      | Inr (entity_df_sql_table, calls) \<Rightarrow>
          (case get_feature_view_query_context (requested W) (get_table_query_string W)
                  feature_refs feature_views of
             Inl e \<Rightarrow> (Inl e, calls)
           | Inr query_context \<Rightarrow>
               (Inr (build_point_in_time_query (str_datetime W) query_context
                       (plus_days (datetime_now W 0) (- 365)) (plus_days (datetime_now W 1) 1)
                       entity_df_sql_table),
                calls)))"

subsection \<open>Vocabulary of the properties\<close>

text \<open>
  The instant a datetime denotes, on the UTC time line, a naive value being read as UTC;
  its UTC normalization (\<open>t.astimezone(utc)\<close>, after reading a naive \<open>t\<close> as UTC); and
  a row whose timestamps are all timezone-aware, as the rows that Datastore returns are.
\<close>

definition instant :: "datetime \<Rightarrow> int" where
  "instant t = wall t - (case tzinfo t of Some off \<Rightarrow> off | None \<Rightarrow> 0)"


definition aware_row :: "entity \<Rightarrow> bool" where
  "aware_row e =
     (tzinfo (event_ts e) \<noteq> None \<and> (case created_ts e of Some c \<Rightarrow> tzinfo c \<noteq> None | None \<Rightarrow> True))"

text \<open>
  The condition under which a record is to be skipped, in the words of the specification:
  a row exists, and its event timestamp is strictly greater than the incoming one, or the
  two are equal, both created timestamps are present and the existing one is strictly
  greater than the incoming one.
\<close>

definition claimed_skip :: "entity option \<Rightarrow> datetime \<Rightarrow> datetime option \<Rightarrow> bool" where
  "claimed_skip existing timestamp created =
     (case existing of
        None \<Rightarrow> False
      | Some entity \<Rightarrow>
          instant timestamp < instant (event_ts entity)
          \<or> (instant (event_ts entity) = instant timestamp
              \<and> (case created of
                    None \<Rightarrow> False
                  | Some c \<Rightarrow>
                      (case created_ts entity of
                         None \<Rightarrow> False
                       | Some ec \<Rightarrow> instant c < instant ec))))"

text \<open>
  The row the write path stores for a record: the serialized key, the serialized feature
  values, and the two timestamps made timezone-aware.
\<close>

definition incoming_row ::
  "('k, 'v) codecs \<Rightarrow> 'k \<Rightarrow> (string \<times> 'v) list \<Rightarrow> datetime \<Rightarrow> datetime option \<Rightarrow> entity" where
  "incoming_row L entity_key feature_values timestamp created =
     \<lparr>key = key_SerializeToString L entity_key,
      values_map = map (\<lambda>(k, v). (k, SerializeToString L v)) feature_values,
      event_ts = make_tzaware timestamp,
      created_ts = map_option make_tzaware created\<rparr>"

text \<open>A store never loses a row nor moves the event timestamp of a row back.\<close>

definition never_older :: "datastore \<Rightarrow> datastore \<Rightarrow> bool" where
  "never_older store store' =
     (\<forall>k row. store k = Some row \<longrightarrow>
        (\<exists>row'. store' k = Some row' \<and> instant (event_ts row) \<le> instant (event_ts row')))"

text \<open>
  What a read is to return for an entity key, given a decoder of serialized values; and the
  condition that the serialized values of the row of a key, if there is one, all parse to
  what the decoder says.
\<close>

definition read_entry ::
  "('k, 'v) codecs \<Rightarrow> (bytes \<Rightarrow> 'v) \<Rightarrow> string \<Rightarrow> string \<Rightarrow> datastore \<Rightarrow> 'k \<Rightarrow> 'v read_result" where
  "read_entry L decode project table_name store entity_key =
     (case store (client_key project table_name (compute_datastore_entity_id L entity_key)) of
        None \<Rightarrow> (None, None)
      | Some row \<Rightarrow>
          (Some (event_ts row), Some (map (\<lambda>(n, b). (n, decode b)) (values_map row))))"

definition decodable ::
  "('k, 'v) codecs \<Rightarrow> (bytes \<Rightarrow> 'v) \<Rightarrow> string \<Rightarrow> string \<Rightarrow> datastore \<Rightarrow> 'k \<Rightarrow> bool" where
  "decodable L decode project table_name store entity_key =
     (case store (client_key project table_name (compute_datastore_entity_id L entity_key)) of
        None \<Rightarrow> True
      | Some row \<Rightarrow> list_all (\<lambda>(n, b). ParseFromString L b = Inr (decode b)) (values_map row))"

subsection \<open>Example values\<close>

text \<open>
  Concrete stand-ins for the libraries, with entity keys and feature values that are
  natural numbers; two keys that differ by four serialize alike.
\<close>

definition example_codecs :: "(nat, nat) codecs" where
  "example_codecs =
     \<lparr>serialize_entity_key = (\<lambda>k. [word_of_nat (k mod 4)]),
      key_SerializeToString = (\<lambda>k. [word_of_nat k]),
      SerializeToString = (\<lambda>v. [word_of_nat v]),
      ParseFromString = (\<lambda>b. case b of [w] \<Rightarrow> Inr (unat w) | _ \<Rightarrow> Inl DecodeError),
      hash_bytes = (\<lambda>b. b @ map (\<lambda>w. w + 171) b)\<rparr>"

text \<open>A store that answers every call, a row of event time 9, and two records for its key.\<close>

definition ok :: fate where
  "ok = \<lparr>on_begin = None, on_get = (\<lambda>i. None), on_commit = None\<rparr>"

definition example_key :: ds_key where
  "example_key = client_key ''p'' ''t'' ''02ad''"

definition example_row :: entity where
  "example_row = \<lparr>key = [2], values_map = [], event_ts = \<lparr>wall = 9, tzinfo = Some 0\<rparr>,
                   created_ts = None\<rparr>"

definition example_store :: datastore where
  "example_store = Map.empty(example_key \<mapsto> example_row)"

definition older_record :: "(nat, nat) write_record" where
  "older_record = (2, [(''f'', 7)], \<lparr>wall = 5, tzinfo = None\<rparr>, None)"

definition newer_record :: "(nat, nat) write_record" where
  "newer_record = (2, [(''f'', 7)], \<lparr>wall = 12, tzinfo = None\<rparr>, None)"

text \<open>
  A store whose commit meets a conflict, and a record whose event timestamp is 01:00 at
  one hour east of UTC.
\<close>

definition conflict_at_commit :: fate where
  "conflict_at_commit = \<lparr>on_begin = None, on_get = (\<lambda>i. None), on_commit = Some Conflict\<rparr>"



text \<open>A store with one row of two features, the key of a row that is absent, and a decoder.\<close>

definition second_key :: ds_key where
  "second_key = client_key ''p'' ''t'' ''03ae''"

definition read_store :: datastore where
  "read_store = Map.empty(example_key \<mapsto>
     \<lparr>key = [2], values_map = [(''f'', [7]), (''g'', [9])],
      event_ts = \<lparr>wall = 12, tzinfo = Some 0\<rparr>, created_ts = None\<rparr>)"

definition example_decode :: "bytes \<Rightarrow> nat" where
  "example_decode b = (case b of [w] \<Rightarrow> unat w | _ \<Rightarrow> 0)"

text \<open>
  A feature view on a file, a world for the historical retrieval, and two query contexts,
  one without and one with a time to live.
\<close>

definition file_view :: FeatureView where
  "file_view = \<lparr>FeatureView.name = ''drivers'', FeatureView.entities = [''driver_id''],
                 FeatureView.ttl = None, input = FileSource ''drivers.parquet''\<rparr>"

definition example_world :: world where
  "example_world =
     \<lparr>client_project = ''gcp'',
      time_time = 42,
      datetime_now = (\<lambda>n. \<lparr>wall = 0, tzinfo = None\<rparr>),
      str_datetime = (\<lambda>t. str_int (wall t)),
      get_table_query_string =
        (\<lambda>source. case source of
           BigQuerySource input_table_ref c1 c2 m q \<Rightarrow> ''`'' @ input_table_ref @ ''`''
         | _ \<Rightarrow> []),
      requested = (\<lambda>feature_refs feature_views. Inr (map (\<lambda>view. (view, feature_refs)) feature_views))\<rparr>"

definition daily_stats :: FeatureViewQueryContext where
  "daily_stats =
     \<lparr>name = ''daily'', ttl = 0, entities = [''driver_id''], features = [''trips'', ''rating''],
      table_ref = ''proj.ds.daily'', event_timestamp_column = ''ts'',
      created_timestamp_column = ''created'', field_mapping = [], query = [],
      table_subquery = ''`proj.ds.daily`''\<rparr>"

definition hourly_stats :: FeatureViewQueryContext where
  "hourly_stats =
     \<lparr>name = ''hourly'', ttl = 3600, entities = [''driver_id''], features = [''speed''],
      table_ref = ''proj.ds.hourly'', event_timestamp_column = ''ts'',
      created_timestamp_column = ''created'', field_mapping = [], query = [],
      table_subquery = ''`proj.ds.hourly`''\<rparr>"

definition example_str_datetime :: "datetime \<Rightarrow> string" where
  "example_str_datetime t = (if wall t = 0 then ''2020-01-01 00:00:00'' else ''2021-01-02 00:00:00'')"

section \<open>Properties\<close>

subsection \<open>Minibatches\<close>

lemma to_minibatches_Nil: "to_minibatches [] n = []"
  by (simp add: to_minibatches.simps)

lemma to_minibatches_step:
  "0 < n \<Longrightarrow> xs \<noteq> [] \<Longrightarrow> to_minibatches xs n = take n xs # to_minibatches (drop n xs) n"
  by (subst to_minibatches.simps) (simp add: Let_def)

lemma concat_to_minibatches: "0 < n \<Longrightarrow> concat (to_minibatches xs n) = xs"
proof (induction xs n rule: to_minibatches.induct)
  case (1 iterable batch_size)
  show ?case
  proof (cases "iterable = []")
    case True
    then show ?thesis by (simp add: to_minibatches_Nil)
  next
    case False
    with 1 show ?thesis by (simp add: to_minibatches_step)
  qed
qed

lemma length_to_minibatches:
  "0 < n \<Longrightarrow> length (to_minibatches xs n) = (length xs + n - 1) div n"
proof (induction xs n rule: to_minibatches.induct)
  case (1 iterable batch_size)
  show ?case
  proof (cases "iterable = []")
    case True
    then show ?thesis using 1(2) by (simp add: to_minibatches_Nil)
  next
    case False
    then have len: "0 < length iterable" by simp
    have ih: "length (to_minibatches (drop batch_size iterable) batch_size) =
        (length (drop batch_size iterable) + batch_size - 1) div batch_size"
      using 1 False by simp
    show ?thesis
    proof (cases "length iterable \<le> batch_size")
      case True
      then have "(length iterable + batch_size - 1) div batch_size = 1"
        using len 1(2) by (intro div_nat_eqI) (simp_all del: length_greater_0_conv)
      then show ?thesis using True False 1(2) ih by (simp add: to_minibatches_step)
    next
      case longer: False
      then have "length iterable + batch_size - 1
          = (length iterable - batch_size + batch_size - 1) + batch_size"
        using 1(2) by simp
      then have "(length iterable + batch_size - 1) div batch_size
          = Suc ((length iterable - batch_size + batch_size - 1) div batch_size)"
        using 1(2) by (metis div_add_self2 Suc_eq_plus1 less_numeral_extra(3))
      then show ?thesis using False 1(2) ih by (simp add: to_minibatches_step)
    qed
  qed
qed

lemma sizes_to_minibatches:
  "0 < n \<Longrightarrow> b \<in> set (to_minibatches xs n) \<Longrightarrow> 0 < length b \<and> length b \<le> n"
proof (induction xs n rule: to_minibatches.induct)
  case (1 iterable batch_size)
  show ?case
  proof (cases "iterable = []")
    case True
    then show ?thesis using 1(3) by (simp add: to_minibatches_Nil)
  next
    case False
    with 1 show ?thesis by (auto simp add: to_minibatches_step)
  qed
qed

lemma butlast_to_minibatches:
  "0 < n \<Longrightarrow> b \<in> set (butlast (to_minibatches xs n)) \<Longrightarrow> length b = n"
proof (induction xs n rule: to_minibatches.induct)
  case (1 iterable batch_size)
  show ?case
  proof (cases "iterable = []")
    case True
    then show ?thesis using 1(3) by (simp add: to_minibatches_Nil)
  next
    case False
    show ?thesis
    proof (cases "drop batch_size iterable = []")
      case True
      then show ?thesis
        using 1(2,3) False by (simp add: to_minibatches_step to_minibatches_Nil)
    next
      case more: False
      then have "to_minibatches (drop batch_size iterable) batch_size \<noteq> []"
        using 1(2) by (simp add: to_minibatches_step)
      then show ?thesis using 1 False more by (auto simp add: to_minibatches_step)
    qed
  qed
qed

text \<open>
  C4. For every sequence of N records, splitting with batch size 50 yields
  \<open>ceil(N / 50)\<close> batches, that is \<open>(N + 49) div 50\<close>; every batch but the last has
  50 records, every batch (so the last one too) is non-empty and has at most 50; and the
  batches concatenated in yield order are the input.
\<close>

theorem to_minibatches_50:
  "length (to_minibatches data 50) = (length data + 49) div 50
   \<and> (\<forall>b \<in> set (butlast (to_minibatches data 50)). length b = 50)
   \<and> (\<forall>b \<in> set (to_minibatches data 50). 0 < length b \<and> length b \<le> 50)
   \<and> concat (to_minibatches data 50) = data"
proof (intro conjI ballI)
  show "length (to_minibatches data 50) = (length data + 49) div 50"
    using length_to_minibatches [of 50 data] by simp
next
  fix b assume "b \<in> set (butlast (to_minibatches data 50))"
  then show "length b = 50"
    using butlast_to_minibatches [of 50 b data] by simp
next
  fix b assume b: "b \<in> set (to_minibatches data 50)"
  show "0 < length b" using sizes_to_minibatches [OF _ b] by simp
  show "length b \<le> 50" using sizes_to_minibatches [OF _ b] by simp
next
  show "concat (to_minibatches data 50) = data"
    using concat_to_minibatches [of 50 data] by simp
qed

lemma to_minibatches_120:
  "to_minibatches [0..<120] 50 = [[0..<50], [50..<100], [100..<120]]"
proof -
  have d1: "drop 50 [0..<120] = [50..<120]" by (simp add: drop_upt)
  have d2: "drop 50 [50..<120] = [100..<120]" by (simp add: drop_upt)
  have d3: "drop 50 [100..<120] = []" by simp
  have t1: "take 50 [0..<120] = [0..<50]" by (simp add: take_upt)
  have t2: "take 50 [50..<120] = [50..<100]" by (simp add: take_upt)
  have t3: "take 50 [100..<120] = [100..<120]" by simp
  have n1: "[0..<120] \<noteq> []" "[50..<120] \<noteq> []" "[100..<120] \<noteq> ([]::nat list)"
    by simp_all
  show ?thesis
    by (simp only: to_minibatches_step [OF _ n1(1)] to_minibatches_step [OF _ n1(2)]
        to_minibatches_step [OF _ n1(3)] d1 d2 d3 t1 t2 t3 to_minibatches_Nil zero_less_numeral)
qed

theorem to_minibatches_50_witness:
  "length (to_minibatches [0..<120] 50) = 3
   \<and> [50..<100] \<in> set (butlast (to_minibatches [0..<120] 50)) \<and> length [50..<100] = 50
   \<and> [100..<120] \<in> set (to_minibatches [0..<120] 50) \<and> length [100..<120] = 20
   \<and> concat (to_minibatches [0..<120] 50) = [0..<120]"
  using to_minibatches_50 [of "[0..<120]"] by (simp add: to_minibatches_120)

subsection \<open>The lookup identifier\<close>

lemma hex_digit_inj: "m < 16 \<Longrightarrow> n < 16 \<Longrightarrow> hex_digit m = hex_digit n \<Longrightarrow> m = n"
proof -
  assume m: "m < 16" and n: "n < 16" and e: "hex_digit m = hex_digit n"
  have d: "distinct ''0123456789abcdef''" by simp
  have l: "length ''0123456789abcdef'' = 16" by simp
  from e m n have "''0123456789abcdef'' ! m = ''0123456789abcdef'' ! n"
    by (simp add: hex_digit_def)
  with d l m n show "m = n"
    by (metis nth_eq_iff_index_eq)
qed

lemma hex_byte_inj:
  fixes a b :: "8 word"
  assumes "[hex_digit (unat a div 16), hex_digit (unat a mod 16)]
         = [hex_digit (unat b div 16), hex_digit (unat b mod 16)]"
  shows "a = b"
proof -
  have ua: "unat a < 256" using unsigned_less [of a] by simp
  have ub: "unat b < 256" using unsigned_less [of b] by simp
  have "unat a div 16 = unat b div 16"
    using assms ua ub by (intro hex_digit_inj) simp_all
  moreover have "unat a mod 16 = unat b mod 16"
    using assms by (intro hex_digit_inj) simp_all
  ultimately have "unat a = unat b"
    by (metis div_mult_mod_eq)
  then show ?thesis by (simp add: word_unat_eq_iff)
qed

lemma hex_inj: "hex xs = hex ys \<Longrightarrow> xs = ys"
proof (induction xs arbitrary: ys)
  case Nil
  then show ?case by (cases ys) (simp_all add: hex_def)
next
  case (Cons x xs)
  then obtain y ys' where ys: "ys = y # ys'"
    by (cases ys) (simp_all add: hex_def)
  from Cons.prems ys have h: "[hex_digit (unat x div 16), hex_digit (unat x mod 16)]
         = [hex_digit (unat y div 16), hex_digit (unat y mod 16)]" and t: "hex xs = hex ys'"
    by (simp_all add: hex_def)
  from hex_byte_inj [OF h] Cons.IH [OF t] ys show ?case by simp
qed

lemma length_hex: "length (hex bs) = 2 * length bs"
  by (induction bs) (simp_all add: hex_def)

lemma hex_digit_range: "hex_digit n \<in> set ''0123456789abcdef''"
proof -
  have "n mod 16 < length ''0123456789abcdef''" by simp
  then show ?thesis unfolding hex_digit_def by (rule nth_mem)
qed

lemma hex_chars: "c \<in> set (hex bs) \<Longrightarrow> c \<in> set ''0123456789abcdef''"
  unfolding hex_def using hex_digit_range by auto

text \<open>
  C6. The lookup identifier of an entity key depends on the key only through its byte
  serialization: keys that serialize alike get the same identifier. The identifier is the
  hexadecimal encoding of the hash of the serialization: it tells two hashes apart, it has
  two characters for each byte of the hash (so its length is fixed with that of the hash),
  and it is made of lower-case hexadecimal digits.
\<close>

theorem compute_datastore_entity_id_pure:
  fixes L :: "('k, 'v) codecs"
  shows
  "(serialize_entity_key L k1 = serialize_entity_key L k2 \<longrightarrow>
      compute_datastore_entity_id L k1 = compute_datastore_entity_id L k2)
   \<and> (compute_datastore_entity_id L k1 = compute_datastore_entity_id L k2 \<longleftrightarrow>
        hash_bytes L (serialize_entity_key L k1) = hash_bytes L (serialize_entity_key L k2))
   \<and> length (compute_datastore_entity_id L k1)
        = 2 * length (hash_bytes L (serialize_entity_key L k1))
   \<and> set (compute_datastore_entity_id L k1) \<subseteq> set ''0123456789abcdef''"
proof (intro conjI impI)
  assume "serialize_entity_key L k1 = serialize_entity_key L k2"
  then show "compute_datastore_entity_id L k1 = compute_datastore_entity_id L k2"
    by (simp add: compute_datastore_entity_id_def)
next
  show "compute_datastore_entity_id L k1 = compute_datastore_entity_id L k2 \<longleftrightarrow>
        hash_bytes L (serialize_entity_key L k1) = hash_bytes L (serialize_entity_key L k2)"
    unfolding compute_datastore_entity_id_def using hex_inj by auto
next
  show "length (compute_datastore_entity_id L k1)
        = 2 * length (hash_bytes L (serialize_entity_key L k1))"
    by (simp add: compute_datastore_entity_id_def length_hex)
next
  show "set (compute_datastore_entity_id L k1) \<subseteq> set ''0123456789abcdef''"
    unfolding compute_datastore_entity_id_def using hex_chars by blast
qed

lemma example_serialize: "serialize_entity_key example_codecs k = [word_of_nat (k mod 4)]"
  by (simp add: example_codecs_def)

lemma example_id_2: "compute_datastore_entity_id example_codecs 2 = ''02ad''"
  by (simp add: compute_datastore_entity_id_def example_codecs_def hex_def hex_digit_def)

lemma example_id_6: "compute_datastore_entity_id example_codecs 6 = ''02ad''"
  by (simp add: compute_datastore_entity_id_def example_codecs_def hex_def hex_digit_def)

theorem compute_datastore_entity_id_pure_witness:
  "serialize_entity_key example_codecs 2 = serialize_entity_key example_codecs 6
   \<and> compute_datastore_entity_id example_codecs 2 = compute_datastore_entity_id example_codecs 6
   \<and> length (compute_datastore_entity_id example_codecs 2) = 4"
  using compute_datastore_entity_id_pure [of example_codecs 2 6]
  by (simp add: example_id_2 example_id_6 example_serialize)

subsection \<open>Writing an empty batch\<close>

text \<open>
  C10. Writing an empty list of records does nothing at the store: the splitter yields no
  minibatch, so whatever the store would answer, no write of a minibatch runs; the call
  returns normally with the store as it was and the callback's state untouched.
\<close>

theorem online_write_batch_empty:
  "to_minibatches ([] :: ('k, 'v) write_record list) 50 = []
   \<and> online_write_batch L own_writes_visible project table_name [] progress fates store p
       = (None, store, p)"
  by (simp add: online_write_batch_def pool_map_def to_minibatches_Nil)

subsection \<open>The staleness guard\<close>

lemma instant_make_tzaware: "instant (make_tzaware t) = instant t"
  by (simp add: instant_def make_tzaware_def utc_def split: option.splits)


lemma dt_gt_aware:
  "tzinfo a \<noteq> None \<Longrightarrow> dt_gt a (make_tzaware b) = Inr (instant b < instant a)"
  by (auto simp add: dt_gt_def instant_def make_tzaware_def utc_def split: option.splits)

lemma dt_eq_aware:
  "tzinfo a \<noteq> None \<Longrightarrow> dt_eq a (make_tzaware b) = (instant a = instant b)"
  by (auto simp add: dt_eq_def instant_def make_tzaware_def utc_def split: option.splits)

lemma dt_gt_Inr:
  "dt_gt a (make_tzaware b) = Inr g \<Longrightarrow> g = (instant b < instant a)"
  by (auto simp add: dt_gt_def instant_def make_tzaware_def utc_def split: option.splits if_splits)

lemma staleness_guard_aware:
  "aware_row e \<Longrightarrow> staleness_guard e timestamp created = Inr (claimed_skip (Some e) timestamp created)"
  by (auto simp add: staleness_guard_def claimed_skip_def aware_row_def dt_gt_aware dt_eq_aware
      split: option.splits bool.splits)

lemma staleness_guard_False:
  "staleness_guard e timestamp created = Inr False \<Longrightarrow> instant (event_ts e) \<le> instant timestamp"
  unfolding staleness_guard_def
  by (cases "dt_gt (event_ts e) (make_tzaware timestamp)") (auto dest: dt_gt_Inr split: if_splits bool.splits)

lemma entity_update_incoming:
  "entity_update L existing entity_key feature_values timestamp created
     = incoming_row L entity_key feature_values timestamp created"
  by (cases existing) (simp_all add: entity_update_def incoming_row_def Let_def map_option_case)

lemma write_row_char:
  assumes "on_get f i = None"
    and "\<forall>entity. txn_get v t (client_key project table_name (compute_datastore_entity_id L entity_key)) = Some entity
           \<longrightarrow> aware_row entity"
  shows "write_row L v project table_name f i (entity_key, feature_values, timestamp, created) t =
     (let k = client_key project table_name (compute_datastore_entity_id L entity_key) in
      if claimed_skip (txn_get v t k) timestamp created then Inr None
      else Inr (Some (txn_put t k (incoming_row L entity_key feature_values timestamp created))))"
proof (cases "txn_get v t (client_key project table_name (compute_datastore_entity_id L entity_key))")
  case None
  then show ?thesis using assms(1)
    by (simp add: write_row_def Let_def claimed_skip_def entity_update_incoming)
next
  case (Some entity)
  then have "aware_row entity" using assms(2) by simp
  then show ?thesis using Some assms(1)
    by (simp add: write_row_def Let_def staleness_guard_aware entity_update_incoming)
qed

lemma never_older_refl: "never_older s s"
  by (simp add: never_older_def)

lemma write_row_mono:
  assumes w: "write_row L v project table_name f i r t = Inr (Some t')"
    and inv: "never_older (snapshot t) (pending t)"
  shows "never_older (snapshot t') (pending t') \<and> snapshot t' = snapshot t"
proof -
  obtain entity_key feature_values timestamp created where r: "r = (entity_key, feature_values, timestamp, created)"
    by (cases r) auto
  define k where "k = client_key project table_name (compute_datastore_entity_id L entity_key)"
  define new where "new = incoming_row L entity_key feature_values timestamp created"
  have inst_new: "instant (event_ts new) = instant timestamp"
    by (simp add: new_def incoming_row_def instant_make_tzaware)
  from w r have t': "t' = txn_put t k new"
    and guard: "\<And>entity. txn_get v t k = Some entity \<Longrightarrow> staleness_guard entity timestamp created = Inr False"
    by (auto simp add: write_row_def Let_def k_def new_def entity_update_incoming
        split: option.splits sum.splits bool.splits)
  have snap: "snapshot t' = snapshot t" by (simp add: t' txn_put_def)
  have "never_older (snapshot t') (pending t')"
    unfolding never_older_def
  proof (intro allI impI)
    fix k' row assume s: "snapshot t' k' = Some row"
    then have s0: "snapshot t k' = Some row" by (simp add: snap)
    from inv s0 obtain row0 where p0: "pending t k' = Some row0"
      and le0: "instant (event_ts row) \<le> instant (event_ts row0)"
      by (auto simp add: never_older_def)
    show "\<exists>row'. pending t' k' = Some row' \<and> instant (event_ts row) \<le> instant (event_ts row')"
    proof (cases "k' = k")
      case False
      then show ?thesis using p0 le0 by (simp add: t' txn_put_def)
    next
      case True
      have "instant (event_ts row) \<le> instant timestamp"
      proof (cases v)
        case True
        then have "txn_get v t k = Some row0" using p0 \<open>k' = k\<close> by (simp add: txn_get_def)
        from staleness_guard_False [OF guard [OF this]] le0 show ?thesis by simp
      next
        case False
        then have "txn_get v t k = Some row" using s0 \<open>k' = k\<close> by (simp add: txn_get_def)
        from staleness_guard_False [OF guard [OF this]] show ?thesis .
      qed
      then show ?thesis using True inst_new by (simp add: t' txn_put_def)
    qed
  qed
  with snap show ?thesis by simp
qed

lemma write_rows_mono:
  "write_rows L v project table_name progress f i data t row_count p = (Inr (t', row_count'), p')
   \<Longrightarrow> never_older (snapshot t) (pending t)
   \<Longrightarrow> never_older (snapshot t') (pending t') \<and> snapshot t' = snapshot t"
proof (induction data arbitrary: i t row_count p)
  case Nil
  then show ?case by simp
next
  case (Cons r data)
  show ?case
  proof (cases "write_row L v project table_name f i r t")
    case (Inl e)
    with Cons.prems(1) show ?thesis by simp
  next
    case (Inr outcome)
    show ?thesis
    proof (cases outcome)
      case None
      with Inr Cons.prems have
        "write_rows L v project table_name progress f (Suc i) data t row_count p = (Inr (t', row_count'), p')"
        by simp
      from Cons.IH [OF this Cons.prems(2)] show ?thesis .
    next
      case (Some t1)
      with Inr Cons.prems(1) have step:
        "write_rows L v project table_name progress f (Suc i) data t1 (row_count + 1)
           (case progress of Some callback \<Rightarrow> callback 1 p | None \<Rightarrow> p) = (Inr (t', row_count'), p')"
        by simp
      from Inr Some have "write_row L v project table_name f i r t = Inr (Some t1)" by simp
      note m = write_row_mono [OF this Cons.prems(2)]
      have a: "never_older (snapshot t1) (pending t1)" by (rule conjunct1 [OF m])
      have b: "snapshot t1 = snapshot t" by (rule conjunct2 [OF m])
      note m2 = Cons.IH [OF step a]
      have "snapshot t' = snapshot t" using conjunct2 [OF m2] b by (rule trans)
      with conjunct1 [OF m2] show ?thesis by (rule conjI)
    qed
  qed
qed

lemma write_attempt_mono:
  assumes "write_attempt L v project table_name data progress f store p = (Inr (store', row_count), p')"
  shows "never_older store store'"
proof -
  from assms obtain t where
    w: "write_rows L v project table_name progress f 0 data (txn_begin store) 0 p = (Inr (t, row_count), p')"
    and s: "store' = txn_commit t"
    by (auto simp add: write_attempt_def split: option.splits prod.splits sum.splits)
  have "never_older (snapshot (txn_begin store)) (pending (txn_begin store))"
    by (simp add: txn_begin_def never_older_refl)
  from write_rows_mono [OF w this] show ?thesis
    by (auto simp add: s txn_commit_def txn_begin_def)
qed

lemma retry_loop_mono:
  "never_older store (fst (snd (retry_loop L v project table_name data progress fates ns store p)))"
proof (induction ns arbitrary: p)
  case Nil
  then show ?case by (simp add: never_older_refl)
next
  case (Cons n ns)
  obtain res p' where a: "write_attempt L v project table_name data progress (fates n) store p = (res, p')"
    by (cases "write_attempt L v project table_name data progress (fates n) store p") auto
  show ?case
  proof (cases res)
    case (Inl e)
    with a Cons.IH [of p'] show ?thesis by (simp add: never_older_refl)
  next
    case (Inr sr)
    obtain store' rc where sr: "sr = (store', rc)" by (cases sr) auto
    from a Inr sr have
      "write_attempt L v project table_name data progress (fates n) store p = (Inr (store', rc), p')"
      by simp
    from write_attempt_mono [OF this] a Inr sr show ?thesis by simp
  qed
qed

lemma write_minibatch_mono:
  "never_older store (fst (snd (write_minibatch L v project table_name data progress fates store p)))"
  unfolding write_minibatch_def by (rule retry_loop_mono)

text \<open>
  C1. For every record the write loop processes, when the lookup succeeds and the row found
  (if any) has timezone-aware timestamps: the loop executes \<open>continue\<close>, leaving the
  transaction, the row count and the callback untouched, exactly when a row exists and its
  event timestamp is strictly greater than the incoming one, or the two are equal, both
  created timestamps are present and the existing one is strictly greater than the
  incoming one; in every other case it puts the row made of the incoming values.
  Consequently, whatever a write of a minibatch does, every row of the store is still
  there afterwards, with an event timestamp that is not earlier.
\<close>

theorem staleness_guard_write:
  fixes L :: "('k, 'v) codecs"
  shows
  "(on_get f i = None \<longrightarrow>
    (\<forall>entity. txn_get v t (client_key project table_name (compute_datastore_entity_id L entity_key))
        = Some entity \<longrightarrow> aware_row entity) \<longrightarrow>
    write_rows L v project table_name progress f i
        ((entity_key, feature_values, timestamp, created) # data) t row_count p =
      (if claimed_skip
            (txn_get v t (client_key project table_name (compute_datastore_entity_id L entity_key)))
            timestamp created
       then write_rows L v project table_name progress f (Suc i) data t row_count p
       else write_rows L v project table_name progress f (Suc i) data
              (txn_put t (client_key project table_name (compute_datastore_entity_id L entity_key))
                 (incoming_row L entity_key feature_values timestamp created))
              (row_count + 1) (case progress of Some callback \<Rightarrow> callback 1 p | None \<Rightarrow> p)))
   \<and> never_older store
        (fst (snd (write_minibatch L v project table_name batch progress fates store p0)))"
proof (intro conjI impI)
  assume g: "on_get f i = None"
    and a: "\<forall>entity. txn_get v t (client_key project table_name (compute_datastore_entity_id L entity_key))
        = Some entity \<longrightarrow> aware_row entity"
  show "write_rows L v project table_name progress f i
        ((entity_key, feature_values, timestamp, created) # data) t row_count p =
      (if claimed_skip
            (txn_get v t (client_key project table_name (compute_datastore_entity_id L entity_key)))
            timestamp created
       then write_rows L v project table_name progress f (Suc i) data t row_count p
       else write_rows L v project table_name progress f (Suc i) data
              (txn_put t (client_key project table_name (compute_datastore_entity_id L entity_key))
                 (incoming_row L entity_key feature_values timestamp created))
              (row_count + 1) (case progress of Some callback \<Rightarrow> callback 1 p | None \<Rightarrow> p))"
    by (simp add: write_row_char [OF g a] Let_def)
next
  show "never_older store
        (fst (snd (write_minibatch L v project table_name batch progress fates store p0)))"
    by (rule write_minibatch_mono)
qed

lemma example_get: "txn_get v (txn_begin example_store) example_key = Some example_row"
  by (simp add: txn_get_def txn_begin_def example_store_def)

lemma example_key_id:
  "client_key ''p'' ''t'' (compute_datastore_entity_id example_codecs 2) = example_key"
  by (simp add: example_key_def example_id_2)

lemma example_skip:
  "claimed_skip (Some example_row) \<lparr>wall = 5, tzinfo = None\<rparr> None"
  by (simp add: claimed_skip_def example_row_def instant_def)

lemma example_no_skip:
  "\<not> claimed_skip (Some example_row) \<lparr>wall = 12, tzinfo = None\<rparr> None"
  by (simp add: claimed_skip_def example_row_def instant_def)

theorem staleness_guard_write_witness:
  "on_get ok 0 = None
   \<and> txn_get True (txn_begin example_store) example_key = Some example_row
   \<and> aware_row example_row
   \<and> write_rows example_codecs True ''p'' ''t'' (Some (\<lambda>n c. c + n)) ok 0 [older_record]
        (txn_begin example_store) 0 (0::int) = (Inr (txn_begin example_store, 0), 0)
   \<and> write_rows example_codecs True ''p'' ''t'' (Some (\<lambda>n c. c + n)) ok 0 [newer_record]
        (txn_begin example_store) 0 (0::int)
      = (Inr (txn_put (txn_begin example_store) example_key
                (incoming_row example_codecs 2 [(''f'', 7)] \<lparr>wall = 12, tzinfo = None\<rparr> None), 1), 1)
   \<and> example_store example_key = Some example_row
   \<and> (\<exists>row'. fst (snd (write_minibatch example_codecs True ''p'' ''t'' [newer_record]
                           (Some (\<lambda>n c. c + n)) (\<lambda>n. ok) example_store (0::int))) example_key = Some row'
         \<and> instant (event_ts example_row) \<le> instant (event_ts row'))"
proof -
  have a: "aware_row example_row" by (simp add: aware_row_def example_row_def)
  have h: "\<forall>entity. txn_get True (txn_begin example_store)
        (client_key ''p'' ''t'' (compute_datastore_entity_id example_codecs 2)) = Some entity
       \<longrightarrow> aware_row entity"
    by (simp add: example_key_id example_get a)
  have g: "on_get ok 0 = None" by (simp add: ok_def)
  have s: "example_store example_key = Some example_row" by (simp add: example_store_def)
  note th = staleness_guard_write [where L = example_codecs and f = ok and i = 0 and v = True
      and t = "txn_begin example_store" and project = "''p''" and table_name = "''t''"
      and entity_key = 2 and feature_values = "[(''f'', 7)]" and created = None and data = "[]"
      and progress = "Some (\<lambda>n c. c + n)" and row_count = 0 and p = "0::int"
      and store = example_store and batch = "[newer_record]" and fates = "\<lambda>n. ok" and ?p0.0 = "0::int"]
  have w1: "write_rows example_codecs True ''p'' ''t'' (Some (\<lambda>n c. c + n)) ok 0 [older_record]
        (txn_begin example_store) 0 (0::int) = (Inr (txn_begin example_store, 0), 0)"
    using th [where timestamp = "\<lparr>wall = 5, tzinfo = None\<rparr>"] g h
    by (simp add: older_record_def example_key_id example_get example_skip)
  have w2: "write_rows example_codecs True ''p'' ''t'' (Some (\<lambda>n c. c + n)) ok 0 [newer_record]
        (txn_begin example_store) 0 (0::int)
      = (Inr (txn_put (txn_begin example_store) example_key
                (incoming_row example_codecs 2 [(''f'', 7)] \<lparr>wall = 12, tzinfo = None\<rparr> None), 1), 1)"
    using th [where timestamp = "\<lparr>wall = 12, tzinfo = None\<rparr>"] g h
    by (simp add: newer_record_def example_key_id example_get example_no_skip)
  have m: "never_older example_store
        (fst (snd (write_minibatch example_codecs True ''p'' ''t'' [newer_record]
                           (Some (\<lambda>n c. c + n)) (\<lambda>n. ok) example_store (0::int))))"
    using th [where timestamp = "\<lparr>wall = 12, tzinfo = None\<rparr>"] by simp
  from m s have e: "\<exists>row'. fst (snd (write_minibatch example_codecs True ''p'' ''t'' [newer_record]
                           (Some (\<lambda>n c. c + n)) (\<lambda>n. ok) example_store (0::int))) example_key = Some row'
         \<and> instant (event_ts example_row) \<le> instant (event_ts row')"
    unfolding never_older_def by blast
  from g example_get [of True] a w1 w2 s e show ?thesis by blast
qed

subsection \<open>The timestamps of an upserted row\<close>

lemma example_value: "SerializeToString example_codecs v = [word_of_nat v]"
  by (simp add: example_codecs_def)

lemma example_key_bytes: "key_SerializeToString example_codecs 2 = [2]"
  by (simp add: example_codecs_def)

lemma write_row_new:
  "on_get f i = None \<Longrightarrow> txn_get v t (client_key project table_name (compute_datastore_entity_id L entity_key)) = None
   \<Longrightarrow> write_row L v project table_name f i (entity_key, feature_values, timestamp, created) t
     = Inr (Some (txn_put t (client_key project table_name (compute_datastore_entity_id L entity_key))
         (incoming_row L entity_key feature_values timestamp created)))"
  by (simp add: write_row_def Let_def entity_update_incoming)








subsection \<open>The progress callback\<close>

lemma upt_3: "[0..<3] = [0, 1, 2]"
  by (simp add: upt_rec)

lemma write_attempt_single_new:
  assumes "on_begin f = None" and "on_get f 0 = None"
    and "store (client_key project table_name (compute_datastore_entity_id L entity_key)) = None"
  shows "write_attempt L v project table_name [(entity_key, feature_values, timestamp, created)]
           progress f store p =
     (case on_commit f of
        Some e \<Rightarrow> (Inl e, case progress of Some callback \<Rightarrow> callback 1 p | None \<Rightarrow> p)
      | None \<Rightarrow>
          (Inr (store(client_key project table_name (compute_datastore_entity_id L entity_key)
                   \<mapsto> incoming_row L entity_key feature_values timestamp created), 1),
           case progress of Some callback \<Rightarrow> callback 1 p | None \<Rightarrow> p))"
proof -
  have n: "txn_get v (txn_begin store)
     (client_key project table_name (compute_datastore_entity_id L entity_key)) = None"
    using assms(3) by (simp add: txn_get_def txn_begin_def)
  have c: "\<And>k e. txn_commit (txn_put (txn_begin store) k e) = store(k \<mapsto> e)"
    by (simp add: txn_commit_def txn_put_def txn_begin_def)
  show ?thesis
    by (simp add: write_attempt_def assms(1) write_row_new [OF assms(2) n] c
        split: option.splits)
qed

lemma incoming_newer:
  "incoming_row example_codecs 2 [(''f'', 7)] \<lparr>wall = 12, tzinfo = None\<rparr> None
     = \<lparr>key = [2], values_map = [(''f'', [7])], event_ts = \<lparr>wall = 12, tzinfo = Some 0\<rparr>,
        created_ts = None\<rparr>"
  by (simp add: incoming_row_def example_value example_key_bytes make_tzaware_def utc_def)

lemma attempt_conflict:
  "write_attempt example_codecs True ''p'' ''t'' [newer_record] (Some (\<lambda>n c. c + n))
      conflict_at_commit Map.empty (c::int) = (Inl Conflict, c + 1)"
  unfolding newer_record_def
  by (subst write_attempt_single_new) (simp_all add: conflict_at_commit_def)

lemma attempt_ok:
  "write_attempt example_codecs True ''p'' ''t'' [newer_record] (Some (\<lambda>n c. c + n))
      ok Map.empty (c::int)
   = (Inr (Map.empty(example_key \<mapsto>
        \<lparr>key = [2], values_map = [(''f'', [7])], event_ts = \<lparr>wall = 12, tzinfo = Some 0\<rparr>,
          created_ts = None\<rparr>), 1), c + 1)"
  unfolding newer_record_def
  by (subst write_attempt_single_new) (simp_all add: ok_def incoming_newer example_key_id)

text \<open>
  C8. The callback runs right after each put, inside the transaction. When the commit of
  the first attempt meets a conflict and the second attempt commits, a minibatch of one
  record has called the callback twice (the counter ends at 2), while one row was written
  and the \<open>row_count\<close> of the committed attempt is 1.
\<close>

theorem progress_counts_aborted_attempt:
  "write_minibatch example_codecs True ''p'' ''t'' [newer_record] (Some (\<lambda>n c. c + n))
      (\<lambda>n. if n = 0 then conflict_at_commit else ok) Map.empty (0::int)
   = (None,
      Map.empty(example_key \<mapsto>
        \<lparr>key = [2], values_map = [(''f'', [7])], event_ts = \<lparr>wall = 12, tzinfo = Some 0\<rparr>,
          created_ts = None\<rparr>),
      2)
   \<and> write_attempt example_codecs True ''p'' ''t'' [newer_record] (Some (\<lambda>n c. c + n))
        ok Map.empty (1::int)
      = (Inr (Map.empty(example_key \<mapsto>
           \<lparr>key = [2], values_map = [(''f'', [7])], event_ts = \<lparr>wall = 12, tzinfo = Some 0\<rparr>,
             created_ts = None\<rparr>), 1), 2)"
  by (simp add: write_minibatch_def num_retries_on_conflict_def upt_3 attempt_conflict attempt_ok)

subsection \<open>Retrying on conflicts\<close>




lemma mapstar_first_fails:
  "func x s = (Some e, s') \<Longrightarrow> mapstar func (x # chunk) s = (Some e, s')"
  by simp















subsection \<open>Reading rows\<close>

lemma parse_values_decode:
  "list_all (\<lambda>(n, b). ParseFromString L b = Inr (decode b)) items
   \<Longrightarrow> parse_values L res items = Inr (res @ map (\<lambda>(n, b). (n, decode b)) items)"
  by (induction items arbitrary: res) auto

lemma read_rows_entries:
  "\<forall>j < length entity_keys. faults (i + j) = None
   \<Longrightarrow> \<forall>k \<in> set entity_keys. decodable L decode project table_name store k
   \<Longrightarrow> read_rows L project table_name faults store i result entity_keys
       = Inr (result @ map (read_entry L decode project table_name store) entity_keys)"
proof (induction entity_keys arbitrary: i result)
  case Nil
  then show ?case by simp
next
  case (Cons entity_key entity_keys)
  have f0: "faults i = None" using Cons.prems(1) by (auto dest: spec [of _ 0])
  have fs: "\<forall>j < length entity_keys. faults (Suc i + j) = None"
  proof (intro allI impI)
    fix j assume "j < length entity_keys"
    then have "Suc j < length (entity_key # entity_keys)" by simp
    with Cons.prems(1) have "faults (i + Suc j) = None" by blast
    then show "faults (Suc i + j) = None" by simp
  qed
  have ds: "\<forall>k \<in> set entity_keys. decodable L decode project table_name store k"
    using Cons.prems(2) by simp
  have d: "decodable L decode project table_name store entity_key"
    using Cons.prems(2) by simp
  note ih = Cons.IH [OF fs ds]
  show ?case
  proof (cases "store (client_key project table_name (compute_datastore_entity_id L entity_key))")
    case None
    then show ?thesis using f0 by (simp add: ih read_entry_def)
  next
    case (Some row)
    with d have "list_all (\<lambda>(n, b). ParseFromString L b = Inr (decode b)) (values_map row)"
      by (simp add: decodable_def)
    then have "parse_values L [] (values_map row) = Inr (map (\<lambda>(n, b). (n, decode b)) (values_map row))"
      using parse_values_decode [of L decode "values_map row" "[]"] by simp
    then show ?thesis using Some f0 by (simp add: ih read_entry_def)
  qed
qed

text \<open>
  C5. When no lookup fails and the serialized values of the rows looked up decode, reading
  a list of entity keys returns a list of the same length whose j-th element is the entry
  of the j-th key: \<open>(None, None)\<close> when no row is stored under the key's lookup
  identifier, and otherwise the event timestamp of the row paired with its feature map,
  every value decoded from its serialized form.
\<close>

theorem online_read_entries:
  fixes L :: "('k, 'v) codecs"
  assumes "\<forall>j < length entity_keys. faults j = None"
    and "\<forall>k \<in> set entity_keys. decodable L decode project table_name store k"
  shows "online_read L project table_name entity_keys faults store
           = Inr (map (read_entry L decode project table_name store) entity_keys)
       \<and> (\<forall>result. online_read L project table_name entity_keys faults store = Inr result
            \<longrightarrow> length result = length entity_keys
              \<and> (\<forall>j < length entity_keys.
                    result ! j = read_entry L decode project table_name store (entity_keys ! j)))"
proof -
  have "online_read L project table_name entity_keys faults store
           = Inr (map (read_entry L decode project table_name store) entity_keys)"
    unfolding online_read_def using read_rows_entries [of entity_keys faults 0 L decode, OF _ assms(2)] assms(1)
    by simp
  then show ?thesis by auto
qed

lemma example_id_3: "compute_datastore_entity_id example_codecs 3 = ''03ae''"
  by (simp add: compute_datastore_entity_id_def example_codecs_def hex_def hex_digit_def)

lemma second_key_id:
  "client_key ''p'' ''t'' (compute_datastore_entity_id example_codecs 3) = second_key"
  by (simp add: second_key_def example_id_3)

lemma read_store_first:
  "read_store example_key = Some \<lparr>key = [2], values_map = [(''f'', [7]), (''g'', [9])],
      event_ts = \<lparr>wall = 12, tzinfo = Some 0\<rparr>, created_ts = None\<rparr>"
  by (simp add: read_store_def)

lemma read_store_second: "read_store second_key = None"
  by (simp add: read_store_def second_key_def example_key_def client_key_def)

lemma example_parse: "ParseFromString example_codecs [w] = Inr (unat w)"
  by (simp add: example_codecs_def)

lemma example_decodable_2: "decodable example_codecs example_decode ''p'' ''t'' read_store 2"
  by (simp add: decodable_def example_key_id read_store_first example_parse example_decode_def)

lemma example_decodable_3: "decodable example_codecs example_decode ''p'' ''t'' read_store 3"
  by (simp add: decodable_def second_key_id read_store_second)

lemma example_entry_2:
  "read_entry example_codecs example_decode ''p'' ''t'' read_store 2
     = (Some \<lparr>wall = 12, tzinfo = Some 0\<rparr>, Some [(''f'', 7), (''g'', 9)])"
  by (simp add: read_entry_def example_key_id read_store_first example_decode_def)

lemma example_entry_3:
  "read_entry example_codecs example_decode ''p'' ''t'' read_store 3 = (None, None)"
  by (simp add: read_entry_def second_key_id read_store_second)

theorem online_read_entries_witness:
  "decodable example_codecs example_decode ''p'' ''t'' read_store 2
   \<and> decodable example_codecs example_decode ''p'' ''t'' read_store 3
   \<and> online_read example_codecs ''p'' ''t'' [2, 3] (\<lambda>i. None) read_store
       = Inr [(Some \<lparr>wall = 12, tzinfo = Some 0\<rparr>, Some [(''f'', 7), (''g'', 9)]), (None, None)]"
proof -
  have f: "\<forall>j < length [2::nat, 3]. (\<lambda>i. None :: error option) j = None" by simp
  have d: "\<forall>k \<in> set [2, 3]. decodable example_codecs example_decode ''p'' ''t'' read_store k"
    by (simp add: example_decodable_2 example_decodable_3)
  from online_read_entries [OF f d, THEN conjunct1]
  have "online_read example_codecs ''p'' ''t'' [2, 3] (\<lambda>i. None) read_store
       = Inr [(Some \<lparr>wall = 12, tzinfo = Some 0\<rparr>, Some [(''f'', 7), (''g'', 9)]), (None, None)]"
    by (simp add: example_entry_2 example_entry_3)
  with example_decodable_2 example_decodable_3 show ?thesis by (intro conjI)
qed

subsection \<open>Errors of the historical retrieval\<close>

lemma str_int_42: "str_int 42 = ''42''"
  by (simp add: str_int_def str_nat.simps digit_char_def)

lemma context_of_file_view:
  "get_feature_view_query_context (requested example_world) (get_table_query_string example_world)
     [''rating''] [file_view] = Inl AssertionError"
  by (simp add: get_feature_view_query_context_def example_world_def file_view_def)

lemma upload_example:
  "upload_entity_df_into_bigquery example_world ''proj'' (df :: nat)
     = (''gcp.feast_proj.entity_df_42'',
        [CreateDataset ''gcp.feast_proj'',
         LoadTableFromDataframe df ''gcp.feast_proj.entity_df_42'',
         GetTable ''gcp.feast_proj.entity_df_42'',
         UpdateTable ''gcp.feast_proj.entity_df_42''])"
proof -
  have p: "client_project example_world = ''gcp''" and t: "time_time example_world = 42"
    by (simp_all add: example_world_def)
  show ?thesis by (simp add: upload_entity_df_into_bigquery_def p t str_int_42 Let_def)
qed

text \<open>
  C7. With a Pandas dataframe as entity dataset and a requested feature view whose input
  is a file source, the dataframe is uploaded first: a dataset is created and a table is
  loaded, read back and updated in BigQuery; only then does building the query context
  raise (an \<open>AssertionError\<close>). With a query string as entity dataset the same feature
  view raises with no remote call made, and an entity dataset of another type raises a
  \<open>ValueError\<close> with no remote call made.
\<close>

theorem unsupported_source_fails_after_upload:
  "get_historical_features example_world ''proj'' [file_view] [''rating''] (DataFrame (0::nat))
     = (Inl AssertionError,
        [CreateDataset ''gcp.feast_proj'',
         LoadTableFromDataframe 0 ''gcp.feast_proj.entity_df_42'',
         GetTable ''gcp.feast_proj.entity_df_42'',
         UpdateTable ''gcp.feast_proj.entity_df_42''])
   \<and> get_historical_features example_world ''proj'' [file_view] [''rating'']
        (SqlQuery ''SELECT 1'' :: nat entity_dataframe) = (Inl AssertionError, [])
   \<and> get_historical_features example_world ''proj'' [file_view] [''rating'']
        (OtherObject :: nat entity_dataframe) = (Inl ValueError, [])"
  by (simp add: get_historical_features_def context_of_file_view upload_example)

subsection \<open>The time to live in the query text\<close>

lemma with_last_mem: "x \<in> set xs \<Longrightarrow> \<exists>is_last. (x, is_last) \<in> set (with_last xs)"
  by (induction xs rule: with_last.induct) auto

lemma sublist_concat_map: "y \<in> set ys \<Longrightarrow> sublist (f y) (concat (map f ys))"
proof -
  assume "y \<in> set ys"
  then obtain as bs where "ys = as @ y # bs" by (auto dest: split_list)
  then have "concat (map f ys) = concat (map f as) @ f y @ concat (map f bs)" by simp
  then show ?thesis unfolding sublist_def by blast
qed

lemma sublist_mid: "sublist xs (a @ xs @ b)"
  unfolding sublist_def by blast

lemma sublist_in: "sublist xs ys \<Longrightarrow> sublist xs (a @ ys @ b)"
  unfolding sublist_def by (metis append.assoc)

lemma sublist_suffix: "sublist xs ys \<Longrightarrow> sublist xs (a @ ys)"
  using sublist_in [of xs ys a "[]"] by simp

lemma block_in_query:
  assumes "fv \<in> set feature_view_query_contexts"
  shows "\<exists>is_last. sublist (featureview_block (str_dt min_timestamp) (str_dt max_timestamp) (fv, is_last))
     (build_point_in_time_query str_dt feature_view_query_contexts min_timestamp
        max_timestamp left_table_query_string)"
proof -
  from with_last_mem [OF assms] obtain is_last where
    m: "(fv, is_last) \<in> set (with_last feature_view_query_contexts)" by blast
  have "sublist (featureview_block (str_dt min_timestamp) (str_dt max_timestamp) (fv, is_last))
     (concat (map (featureview_block (str_dt min_timestamp) (str_dt max_timestamp))
                (with_last feature_view_query_contexts)))"
    by (rule sublist_concat_map [OF m])
  then have "sublist (featureview_block (str_dt min_timestamp) (str_dt max_timestamp) (fv, is_last))
     (build_point_in_time_query str_dt feature_view_query_contexts min_timestamp
        max_timestamp left_table_query_string)"
    unfolding build_point_in_time_query_def by (rule sublist_in)
  then show ?thesis by blast
qed

lemma sublist_trans': "sublist xs ys \<Longrightarrow> sublist ys zs \<Longrightarrow> sublist xs zs"
  unfolding sublist_def by (metis append.assoc)

lemma source_rows_in_block:
  "sublist (source_rows fv mn mx) (featureview_block mn mx (fv, is_last))"
  unfolding featureview_block_def prod.case by (rule sublist_mid)

lemma feature_column_in_block:
  assumes "feature \<in> set (features fv)"
  shows "\<exists>l. sublist (feature_column fv (feature, l)) (featureview_block mn mx (fv, is_last))"
proof -
  from with_last_mem [OF assms] obtain l where
    m: "(feature, l) \<in> set (with_last (features fv))" by blast
  have "sublist (feature_column fv (feature, l))
      (concat (map (feature_column fv) (with_last (features fv))))"
    by (rule sublist_concat_map [OF m])
  then have "sublist (feature_column fv (feature, l)) (featureview_block mn mx (fv, is_last))"
    unfolding featureview_block_def prod.case
    by (intro sublist_suffix sublist_in [where a = "[]", simplified]) 
  then show ?thesis by blast
qed

text \<open>
  C3. For every feature view context of the list, the query text contains the lines that
  select the rows of its source and, for each of its requested features, the column that
  tests the validity of the feature. When the time to live is 0 the source rows are
  bounded by \<open>event_timestamp <= max_timestamp\<close> alone, the line of the bound by the
  time to live being empty, and the test of a feature is
  \<open>event_timestamp >= feature_timestamp\<close> alone. When the time to live is positive the
  source rows are also restricted to
  \<open>event_timestamp >= Timestamp_sub(TIMESTAMP min_timestamp, interval ttl second)\<close> and
  the test of each feature also requires
  \<open>Timestamp_sub(event_timestamp, interval ttl second) < feature_timestamp\<close>, the
  feature being \<open>NULL\<close> otherwise.
\<close>

theorem ttl_filtering_in_query:
  assumes "fv \<in> set feature_view_query_contexts"
  shows
  "sublist (source_rows fv (str_dt min_timestamp) (str_dt max_timestamp))
     (build_point_in_time_query str_dt feature_view_query_contexts min_timestamp max_timestamp
        left_table_query_string)
   \<and> (\<forall>feature \<in> set (features fv). \<exists>is_last.
         sublist (feature_column fv (feature, is_last))
           (build_point_in_time_query str_dt feature_view_query_contexts min_timestamp
              max_timestamp left_table_query_string))
   \<and> (ttl fv = 0 \<longrightarrow>
         source_rows fv (str_dt min_timestamp) (str_dt max_timestamp)
           = ''FROM '' @ table_subquery fv @ '' WHERE '' @ event_timestamp_column fv @ '' <= ''
             @ quote @ str_dt max_timestamp @ quote @ ''\<newline>'' @ ''\<newline>''
         \<and> (\<forall>feature is_last. feature_column fv (feature, is_last)
               = ''\<newline>'' @ ''  IF(event_timestamp >= '' @ name fv @ ''_feature_timestamp ''
                 @ '', '' @ name fv @ ''__'' @ feature @ '', NULL) as '' @ name fv @ ''__'' @ feature
                 @ (if is_last then [] else '', '') @ ''\<newline>'' @ ''  ''))
   \<and> (0 < ttl fv \<longrightarrow>
         source_rows fv (str_dt min_timestamp) (str_dt max_timestamp)
           = ''FROM '' @ table_subquery fv @ '' WHERE '' @ event_timestamp_column fv @ '' <= ''
             @ quote @ str_dt max_timestamp @ quote @ ''\<newline>''
             @ ''AND '' @ event_timestamp_column fv @ '' >= Timestamp_sub(TIMESTAMP '' @ quote
             @ str_dt min_timestamp @ quote @ '', interval '' @ str_int (ttl fv) @ '' second)''
             @ ''\<newline>''
         \<and> (\<forall>feature is_last. feature_column fv (feature, is_last)
               = ''\<newline>'' @ ''  IF(event_timestamp >= '' @ name fv @ ''_feature_timestamp ''
                 @ ''AND Timestamp_sub(event_timestamp, interval '' @ str_int (ttl fv)
                 @ '' second) < '' @ name fv @ ''_feature_timestamp''
                 @ '', '' @ name fv @ ''__'' @ feature @ '', NULL) as '' @ name fv @ ''__'' @ feature
                 @ (if is_last then [] else '', '') @ ''\<newline>'' @ ''  ''))"
proof (intro conjI ballI impI allI)
  from block_in_query [OF assms] obtain is_last where
    b: "sublist (featureview_block (str_dt min_timestamp) (str_dt max_timestamp) (fv, is_last))
     (build_point_in_time_query str_dt feature_view_query_contexts min_timestamp
        max_timestamp left_table_query_string)" by blast
  show "sublist (source_rows fv (str_dt min_timestamp) (str_dt max_timestamp))
     (build_point_in_time_query str_dt feature_view_query_contexts min_timestamp max_timestamp
        left_table_query_string)"
    by (rule sublist_trans' [OF source_rows_in_block b])
  fix feature assume "feature \<in> set (features fv)"
  from feature_column_in_block [OF this] obtain l where
    "sublist (feature_column fv (feature, l))
       (featureview_block (str_dt min_timestamp) (str_dt max_timestamp) (fv, is_last))" by blast
  from sublist_trans' [OF this b]
  show "\<exists>is_last. sublist (feature_column fv (feature, is_last))
           (build_point_in_time_query str_dt feature_view_query_contexts min_timestamp
              max_timestamp left_table_query_string)" by blast
next
  assume "ttl fv = 0"
  then show "source_rows fv (str_dt min_timestamp) (str_dt max_timestamp)
           = ''FROM '' @ table_subquery fv @ '' WHERE '' @ event_timestamp_column fv @ '' <= ''
             @ quote @ str_dt max_timestamp @ quote @ ''\<newline>'' @ ''\<newline>''"
    by (simp add: source_rows_def ttl_source_filter_def)
next
  fix feature is_last assume "ttl fv = 0"
  then show "feature_column fv (feature, is_last)
               = ''\<newline>'' @ ''  IF(event_timestamp >= '' @ name fv @ ''_feature_timestamp ''
                 @ '', '' @ name fv @ ''__'' @ feature @ '', NULL) as '' @ name fv @ ''__'' @ feature
                 @ (if is_last then [] else '', '') @ ''\<newline>'' @ ''  ''"
    by (simp add: feature_column_def ttl_validity_def)
next
  assume "0 < ttl fv"
  then show "source_rows fv (str_dt min_timestamp) (str_dt max_timestamp)
           = ''FROM '' @ table_subquery fv @ '' WHERE '' @ event_timestamp_column fv @ '' <= ''
             @ quote @ str_dt max_timestamp @ quote @ ''\<newline>''
             @ ''AND '' @ event_timestamp_column fv @ '' >= Timestamp_sub(TIMESTAMP '' @ quote
             @ str_dt min_timestamp @ quote @ '', interval '' @ str_int (ttl fv) @ '' second)''
             @ ''\<newline>''"
    by (simp add: source_rows_def ttl_source_filter_def)
next
  fix feature is_last assume "0 < ttl fv"
  then show "feature_column fv (feature, is_last)
               = ''\<newline>'' @ ''  IF(event_timestamp >= '' @ name fv @ ''_feature_timestamp ''
                 @ ''AND Timestamp_sub(event_timestamp, interval '' @ str_int (ttl fv)
                 @ '' second) < '' @ name fv @ ''_feature_timestamp''
                 @ '', '' @ name fv @ ''__'' @ feature @ '', NULL) as '' @ name fv @ ''__'' @ feature
                 @ (if is_last then [] else '', '') @ ''\<newline>'' @ ''  ''"
    by (simp add: feature_column_def ttl_validity_def)
qed

lemma str_int_3600: "str_int 3600 = ''3600''"
  by (simp add: str_int_def str_nat.simps digit_char_def)

lemma daily_fields:
  "ttl daily_stats = 0" "table_subquery daily_stats = ''`proj.ds.daily`''"
  "event_timestamp_column daily_stats = ''ts''" "name daily_stats = ''daily''"
  "features daily_stats = [''trips'', ''rating'']"
  by (simp_all add: daily_stats_def)

lemma hourly_fields:
  "ttl hourly_stats = 3600" "table_subquery hourly_stats = ''`proj.ds.hourly`''"
  "event_timestamp_column hourly_stats = ''ts''" "name hourly_stats = ''hourly''"
  "features hourly_stats = [''speed'']"
  by (simp_all add: hourly_stats_def)

theorem ttl_filtering_in_query_witness:
  "daily_stats \<in> set [daily_stats, hourly_stats] \<and> ttl daily_stats = 0
   \<and> hourly_stats \<in> set [daily_stats, hourly_stats] \<and> 0 < ttl hourly_stats
   \<and> ''rating'' \<in> set (features daily_stats)
   \<and> source_rows daily_stats ''2020-01-01 00:00:00'' ''2021-01-02 00:00:00''
       = ''FROM `proj.ds.daily` WHERE ts <= '' @ quote @ ''2021-01-02 00:00:00'' @ quote
         @ ''\<newline>'' @ ''\<newline>''
   \<and> source_rows hourly_stats ''2020-01-01 00:00:00'' ''2021-01-02 00:00:00''
       = ''FROM `proj.ds.hourly` WHERE ts <= '' @ quote @ ''2021-01-02 00:00:00'' @ quote
         @ ''\<newline>''
         @ ''AND ts >= Timestamp_sub(TIMESTAMP '' @ quote @ ''2020-01-01 00:00:00'' @ quote
         @ '', interval 3600 second)'' @ ''\<newline>''
   \<and> sublist (source_rows daily_stats ''2020-01-01 00:00:00'' ''2021-01-02 00:00:00'')
        (build_point_in_time_query example_str_datetime [daily_stats, hourly_stats]
           \<lparr>wall = 0, tzinfo = None\<rparr> \<lparr>wall = 1, tzinfo = None\<rparr> ''(SELECT 1)'')
   \<and> sublist (source_rows hourly_stats ''2020-01-01 00:00:00'' ''2021-01-02 00:00:00'')
        (build_point_in_time_query example_str_datetime [daily_stats, hourly_stats]
           \<lparr>wall = 0, tzinfo = None\<rparr> \<lparr>wall = 1, tzinfo = None\<rparr> ''(SELECT 1)'')
   \<and> feature_column daily_stats (''rating'', True)
       = ''\<newline>'' @ ''  IF(event_timestamp >= daily_feature_timestamp , daily__rating, NULL) as daily__rating''
         @ ''\<newline>'' @ ''  ''
   \<and> feature_column hourly_stats (''speed'', True)
       = ''\<newline>'' @ ''  IF(event_timestamp >= hourly_feature_timestamp AND Timestamp_sub(event_timestamp, interval 3600 second) < hourly_feature_timestamp, hourly__speed, NULL) as hourly__speed''
         @ ''\<newline>'' @ ''  ''"
proof -
  have mn: "example_str_datetime \<lparr>wall = 0, tzinfo = None\<rparr> = ''2020-01-01 00:00:00''"
    and mx: "example_str_datetime \<lparr>wall = 1, tzinfo = None\<rparr> = ''2021-01-02 00:00:00''"
    by (simp_all add: example_str_datetime_def)
  have md: "daily_stats \<in> set [daily_stats, hourly_stats]"
    and mh: "hourly_stats \<in> set [daily_stats, hourly_stats]" by simp_all
  note d = ttl_filtering_in_query [OF md, of example_str_datetime "\<lparr>wall = 0, tzinfo = None\<rparr>"
      "\<lparr>wall = 1, tzinfo = None\<rparr>" "''(SELECT 1)''", unfolded mn mx]
  note h = ttl_filtering_in_query [OF mh, of example_str_datetime "\<lparr>wall = 0, tzinfo = None\<rparr>"
      "\<lparr>wall = 1, tzinfo = None\<rparr>" "''(SELECT 1)''", unfolded mn mx]
  have td: "ttl daily_stats = 0" by (rule daily_fields)
  have th: "0 < ttl hourly_stats" by (simp add: hourly_fields)
  have r: "''rating'' \<in> set (features daily_stats)" by (simp add: daily_fields)
  note d3 = d [THEN conjunct2, THEN conjunct2, THEN conjunct1, rule_format, OF td]
  note h4 = h [THEN conjunct2, THEN conjunct2, THEN conjunct2, rule_format, OF th]
  have sd: "source_rows daily_stats ''2020-01-01 00:00:00'' ''2021-01-02 00:00:00''
       = ''FROM `proj.ds.daily` WHERE ts <= '' @ quote @ ''2021-01-02 00:00:00'' @ quote
         @ ''\<newline>'' @ ''\<newline>''"
    using d3 [THEN conjunct1] by (simp add: daily_fields)
  have sh: "source_rows hourly_stats ''2020-01-01 00:00:00'' ''2021-01-02 00:00:00''
       = ''FROM `proj.ds.hourly` WHERE ts <= '' @ quote @ ''2021-01-02 00:00:00'' @ quote
         @ ''\<newline>''
         @ ''AND ts >= Timestamp_sub(TIMESTAMP '' @ quote @ ''2020-01-01 00:00:00'' @ quote
         @ '', interval 3600 second)'' @ ''\<newline>''"
    using h4 [THEN conjunct1] by (simp add: hourly_fields str_int_3600)
  have fd: "feature_column daily_stats (''rating'', True)
       = ''\<newline>'' @ ''  IF(event_timestamp >= daily_feature_timestamp , daily__rating, NULL) as daily__rating''
         @ ''\<newline>'' @ ''  ''"
    using d3 [THEN conjunct2, rule_format, of "''rating''" True] by (simp add: daily_fields)
  have fh: "feature_column hourly_stats (''speed'', True)
       = ''\<newline>'' @ ''  IF(event_timestamp >= hourly_feature_timestamp AND Timestamp_sub(event_timestamp, interval 3600 second) < hourly_feature_timestamp, hourly__speed, NULL) as hourly__speed''
         @ ''\<newline>'' @ ''  ''"
    using h4 [THEN conjunct2, rule_format, of "''speed''" True]
    by (simp add: hourly_fields str_int_3600)
  from md td mh th r sd sh d [THEN conjunct1] h [THEN conjunct1] fd fh
  show ?thesis by (intro conjI)
qed

end
